theory Spec2Isabelle
  imports Complex_Main "HOL-Library.AList" "HOL-Library.Sublist"
begin

section \<open>Values, errors and the runtime environment\<close>

text \<open>
  The two scripts \<^verbatim>\<open>crypto_etf_sync.py\<close> and \<^verbatim>\<open>crypto_sync.py\<close> are sequential
  Python programs whose only effects are HTTP calls through \<^verbatim>\<open>requests\<close>, \<^verbatim>\<open>time.sleep\<close>,
  \<^verbatim>\<open>print\<close> and one reading of the wall clock. Values exchanged with the services are
  decoded JSON documents. Python floats are kept abstract (type variable \<open>'f\<close>): the
  scripts never compute with a price, they only test its truth value, convert to it
  with \<^verbatim>\<open>float()\<close> and print it, and those primitives belong to the environment.
  A JSON object is the list of its items in insertion order; \<open>JNull\<close> is Python's
  \<^verbatim>\<open>None\<close>.
\<close>

datatype 'f json =
    JNull
  | JBool bool
  | JInt int
  | JFloat 'f
  | JStr string
  | JArr "'f json list"
  | JObj "(string \<times> 'f json) list"

datatype error =
    RuntimeError string
  | HTTPError int
  | RequestException
  | JSONDecodeError
  | KeyError string
  | NameError string
  | AttributeError
  | TypeError
  | ValueError
  | OverflowError
  | IndexError

datatype http_method = GET | POST | PATCH

record 'f request =
  meth :: http_method
  url :: string
  params :: "(string \<times> string) list"
  headers :: "(string \<times> string) list"
  json_body :: "'f json option"
  timeout :: nat

record 'f response =
  status_code :: int
  response_text :: string
  body :: "'f json option"

datatype 'f outcome = Response "'f response" | Raises

record datetime =
  year :: nat
  month :: nat
  day :: nat
  hour :: nat
  minute :: nat
  second :: nat
  microsecond :: nat

datatype 'f event = Request "'f request" | Sleep nat | Print string

type_synonym 'f trace = "'f event list"

text \<open>
  The environment of a run. \<open>http n rq\<close> is what the call \<open>rq\<close> of \<^verbatim>\<open>requests\<close> meets
  when \<open>n\<close> calls were made before it: a response, or an exception of the library
  (connection failure, timeout, unencodable body). \<open>utcnow n\<close> is the reading of
  \<^verbatim>\<open>datetime.now(timezone.utc)\<close> after \<open>n\<close> events. \<open>environ\<close> is \<^verbatim>\<open>os.environ\<close>. The rest are
  the interpreter's primitives on floats and \<^verbatim>\<open>repr\<close> on decoded values.
\<close>

record 'f env =
  http :: "nat \<Rightarrow> 'f request \<Rightarrow> 'f outcome"
  utcnow :: "nat \<Rightarrow> datetime"
  environ :: "string \<Rightarrow> string option"
  float_of_int :: "int \<Rightarrow> 'f option"
  float_of_str :: "string \<Rightarrow> 'f option"
  float_truth :: "'f \<Rightarrow> bool"
  repr :: "'f json \<Rightarrow> string"

fun is_request :: "'f event \<Rightarrow> bool" where
  "is_request (Request rq) = True"
| "is_request (Sleep n) = False"
| "is_request (Print s) = False"

definition nreq :: "'f trace \<Rightarrow> nat" where
  "nreq tr = length (filter is_request tr)"

fun sleeps :: "'f trace \<Rightarrow> nat list" where
  "sleeps [] = []"
| "sleeps (Sleep n # tr) = n # sleeps tr"
| "sleeps (Request rq # tr) = sleeps tr"
| "sleeps (Print s # tr) = sleeps tr"

fun requests_of :: "'f trace \<Rightarrow> 'f request list" where
  "requests_of [] = []"
| "requests_of (Request rq # tr) = rq # requests_of tr"
| "requests_of (Sleep n # tr) = requests_of tr"
| "requests_of (Print s # tr) = requests_of tr"

subsection \<open>The \<^verbatim>\<open>requests\<close> library and built-ins, as the scripts use them\<close>

definition requests_call :: "'f env \<Rightarrow> 'f request \<Rightarrow> 'f trace \<Rightarrow> (error + 'f response) \<times> 'f trace" where
  "requests_call E rq tr =
     (case http E (nreq tr) rq of
        Response r \<Rightarrow> (Inr r, tr @ [Request rq])
      | Raises \<Rightarrow> (Inl RequestException, tr @ [Request rq]))"

text \<open>\<^verbatim>\<open>Response.raise_for_status\<close> raises for the 4xx and 5xx classes only.\<close>

definition raise_for_status :: "'f response \<Rightarrow> error + unit" where
  "raise_for_status r =
     (if 400 \<le> status_code r \<and> status_code r < 600 then Inl (HTTPError (status_code r))
      else Inr ())"

definition response_json :: "'f response \<Rightarrow> error + 'f json" where
  "response_json r = (case body r of None \<Rightarrow> Inl JSONDecodeError | Some j \<Rightarrow> Inr j)"

definition time_sleep :: "nat \<Rightarrow> 'f trace \<Rightarrow> 'f trace" where
  "time_sleep n tr = tr @ [Sleep n]"

definition print :: "string \<Rightarrow> 'f trace \<Rightarrow> 'f trace" where
  "print s tr = tr @ [Print s]"

fun join :: "string \<Rightarrow> string list \<Rightarrow> string" where
  "join sep [] = []"
| "join sep [x] = x"
| "join sep (x # y # ys) = x @ sep @ join sep (y # ys)"

fun str_nat :: "nat \<Rightarrow> string" where
  "str_nat n =
     (if n < 10 then [char_of (48 + n)]
      else str_nat (n div 10) @ [char_of (48 + n mod 10)])"

declare str_nat.simps [simp del]

definition str_int :: "int \<Rightarrow> string" where
  "str_int i = (if i < 0 then CHR ''-'' # str_nat (nat (- i)) else str_nat (nat i))"

text \<open>Truth value of a decoded value (\<^verbatim>\<open>if x\<close>, \<^verbatim>\<open>not x\<close>, \<^verbatim>\<open>x or y\<close>).\<close>

fun truthy :: "'f env \<Rightarrow> 'f json \<Rightarrow> bool" where
  "truthy E JNull = False"
| "truthy E (JBool b) = b"
| "truthy E (JInt i) = (i \<noteq> 0)"
| "truthy E (JFloat x) = float_truth E x"
| "truthy E (JStr s) = (s \<noteq> [])"
| "truthy E (JArr xs) = (xs \<noteq> [])"
| "truthy E (JObj ps) = (ps \<noteq> [])"

text \<open>\<^verbatim>\<open>x.get(k, d)\<close>: only a dict has the method.\<close>

fun py_get :: "'f json \<Rightarrow> string \<Rightarrow> 'f json \<Rightarrow> error + 'f json" where
  "py_get (JObj ps) k d = (case map_of ps k of None \<Rightarrow> Inr d | Some v \<Rightarrow> Inr v)"
| "py_get _ k d = Inl AttributeError"

text \<open>\<^verbatim>\<open>x[k]\<close> with a string key.\<close>

fun py_getitem :: "'f json \<Rightarrow> string \<Rightarrow> error + 'f json" where
  "py_getitem (JObj ps) k = (case map_of ps k of None \<Rightarrow> Inl (KeyError k) | Some v \<Rightarrow> Inr v)"
| "py_getitem _ k = Inl TypeError"

text \<open>
  \<^verbatim>\<open>x[0]\<close>. The first character of a string is returned as a string; the scripts apply
  \<^verbatim>\<open>.get\<close> or a string subscript to it next, which a string refuses either way.
\<close>

fun py_getitem0 :: "'f json \<Rightarrow> error + 'f json" where
  "py_getitem0 (JArr []) = Inl IndexError"
| "py_getitem0 (JArr (x # xs)) = Inr x"
| "py_getitem0 (JStr []) = Inl IndexError"
| "py_getitem0 (JStr (c # cs)) = Inr (JStr [c])"
| "py_getitem0 (JObj ps) = Inl (KeyError ''0'')"
| "py_getitem0 _ = Inl TypeError"

text \<open>\<^verbatim>\<open>k in x\<close> with a string \<open>k\<close>: key of a dict, element of a list, substring of a string.\<close>

fun py_in :: "string \<Rightarrow> 'f json \<Rightarrow> error + bool" where
  "py_in k (JObj ps) = Inr (k \<in> fst ` set ps)"
| "py_in k (JArr xs) = Inr (JStr k \<in> set xs)"
| "py_in k (JStr s) = Inr (sublist k s)"
| "py_in k _ = Inl TypeError"

text \<open>\<^verbatim>\<open>float(x)\<close>; a bool is an int.\<close>

fun py_float :: "'f env \<Rightarrow> 'f json \<Rightarrow> error + 'f" where
  "py_float E (JFloat x) = Inr x"
| "py_float E (JInt i) = (case float_of_int E i of None \<Rightarrow> Inl OverflowError | Some x \<Rightarrow> Inr x)"
| "py_float E (JBool b) =
     (case float_of_int E (if b then 1 else 0) of None \<Rightarrow> Inl OverflowError | Some x \<Rightarrow> Inr x)"
| "py_float E (JStr s) = (case float_of_str E s of None \<Rightarrow> Inl ValueError | Some x \<Rightarrow> Inr x)"
| "py_float E _ = Inl TypeError"

text \<open>\<^verbatim>\<open>{x}\<close> inside an f-string: a string as it is, anything else through \<^verbatim>\<open>repr\<close>.\<close>

fun py_format :: "'f env \<Rightarrow> 'f json \<Rightarrow> string" where
  "py_format E (JStr s) = s"
| "py_format E v = repr E v"

section \<open>\<^verbatim>\<open>crypto_etf_sync.py\<close>\<close>

record config =
  NOTION_TOKEN :: string
  CRYPTO_DB_ID :: string
  ETF_DB_ID :: string

definition load_config :: "'f env \<Rightarrow> error + config" where
  "load_config E =
     (case environ E ''NOTION_TOKEN'' of None \<Rightarrow> Inl (KeyError ''NOTION_TOKEN'')
      | Some tok \<Rightarrow>
     (case environ E ''NOTION_CRYPTO_DB_ID'' of None \<Rightarrow> Inl (KeyError ''NOTION_CRYPTO_DB_ID'')
      | Some cdb \<Rightarrow>
     (case environ E ''NOTION_ETF_DB_ID'' of None \<Rightarrow> Inl (KeyError ''NOTION_ETF_DB_ID'')
      | Some edb \<Rightarrow> Inr \<lparr>NOTION_TOKEN = tok, CRYPTO_DB_ID = cdb, ETF_DB_ID = edb\<rparr>)))"

definition NOTION_HEADERS :: "config \<Rightarrow> (string \<times> string) list" where
  "NOTION_HEADERS G =
     [(''Authorization'', ''Bearer '' @ NOTION_TOKEN G),
      (''Notion-Version'', ''2022-06-28''),
      (''Content-Type'', ''application/json'')]"

definition VS_CURRENCY :: string where
  "VS_CURRENCY = ''aud''"

definition CRYPTO :: "(string \<times> string) list" where
  "CRYPTO = [(''Bitcoin'', ''bitcoin''), (''WLFI'', ''world-liberty-financial'')]"

definition ETFS :: "(string \<times> string) list" where
  "ETFS = [(''IVV'', ''IVV.AX''), (''AGS'', ''AGS.AX'')]"

definition TITLE_PROP :: string where
  "TITLE_PROP = ''Name''"

definition PRICE_PROP :: string where
  "PRICE_PROP = ''Current Price''"

definition LAST_UPDATED_PROP :: string where
  "LAST_UPDATED_PROP = ''Last Updated''"

subsection \<open>CoinGecko\<close>

definition coingecko_request :: "string \<Rightarrow> string list \<Rightarrow> string \<Rightarrow> 'f request" where
  "coingecko_request agent coin_ids vs =
     \<lparr>meth = GET,
      url = ''https://api.coingecko.com/api/v3/simple/price'',
      params = [(''ids'', join '','' coin_ids), (''vs_currencies'', vs)],
      headers = [(''User-Agent'', agent)],
      json_body = None,
      timeout = 20\<rparr>"

definition rate_limited_msg :: "nat \<Rightarrow> string" where
  "rate_limited_msg sleep_s =
     ''[CoinGecko] 429 rate limited, sleep '' @ str_nat sleep_s @ ''s...''"

text \<open>
  The body of \<^verbatim>\<open>for attempt in range(6)\<close>, over the attempts still to run, and the
  \<^verbatim>\<open>raise\<close> after the loop. Both scripts have this loop; they differ in the
  \<^verbatim>\<open>User-Agent\<close> of the request and in the text of the final error.
\<close>

fun coingecko_attempts ::
  "'f env \<Rightarrow> 'f request \<Rightarrow> string \<Rightarrow> nat list \<Rightarrow> 'f trace \<Rightarrow> (error + 'f json) \<times> 'f trace" where
  "coingecko_attempts E rq msg [] tr = (Inl (RuntimeError msg), tr)"
| "coingecko_attempts E rq msg (attempt # rest) tr =
     (case requests_call E rq tr of
        (Inl e, tr1) \<Rightarrow> (Inl e, tr1)
      | (Inr r, tr1) \<Rightarrow>
          if status_code r = 429 then
            (let sleep_s = 2 * (attempt + 1);
                 tr2 = print (rate_limited_msg sleep_s) tr1;
                 tr3 = time_sleep sleep_s tr2
             in coingecko_attempts E rq msg rest tr3)
          else
            (case raise_for_status r of
               Inl e \<Rightarrow> (Inl e, tr1)
             | Inr u \<Rightarrow>
                 (case response_json r of
                    Inl e \<Rightarrow> (Inl e, tr1)
                  | Inr j \<Rightarrow> (Inr j, tr1))))"

definition coingecko_get_prices ::
  "'f env \<Rightarrow> string list \<Rightarrow> string \<Rightarrow> 'f trace \<Rightarrow> (error + 'f json) \<times> 'f trace" where
  "coingecko_get_prices E coin_ids vs tr =
     coingecko_attempts E (coingecko_request ''notion-sync/1.0'' coin_ids vs)
       ''CoinGecko rate limited too many times (429).'' [0..<6] tr"

subsection \<open>Yahoo Finance\<close>

definition and_then :: "error + 'a \<Rightarrow> ('a \<Rightarrow> error + 'b) \<Rightarrow> error + 'b" where
  "and_then m f = (case m of Inl e \<Rightarrow> Inl e | Inr x \<Rightarrow> f x)"

definition yahoo_request :: "string \<Rightarrow> 'f request" where
  "yahoo_request ticker =
     \<lparr>meth = GET,
      url = ''https://query1.finance.yahoo.com/v8/finance/chart/'' @ ticker,
      params = [(''interval'', ''1m''), (''range'', ''1d''), (''includePrePost'', ''false'')],
      headers = [(''User-Agent'', ''notion-sync/1.0'')],
      json_body = None,
      timeout = 20\<rparr>"

text \<open>
  What \<^verbatim>\<open>yahoo_last_price\<close> does with the decoded document \<^verbatim>\<open>data\<close>: the lines from
  \<^verbatim>\<open>result = data.get("chart", {}).get("result")\<close> to the \<^verbatim>\<open>return\<close>.
\<close>

definition yahoo_extract :: "'f env \<Rightarrow> 'f json \<Rightarrow> error + 'f option" where
  "yahoo_extract E data =
     and_then (py_get data ''chart'' (JObj [])) (\<lambda>chart1.
     and_then (py_get chart1 ''result'' JNull) (\<lambda>result.
     and_then (py_get data ''chart'' (JObj [])) (\<lambda>chart2.
     and_then (py_get chart2 ''error'' JNull) (\<lambda>err.
       if truthy E err \<or> \<not> truthy E result then Inr None
       else
         and_then (py_getitem0 result) (\<lambda>result0.
         and_then (py_get result0 ''meta'' (JObj [])) (\<lambda>meta.
         and_then (py_get meta ''regularMarketPrice'' JNull) (\<lambda>live.
         and_then (if truthy E live then Inr live else py_get meta ''previousClose'' JNull) (\<lambda>price.
           if price \<noteq> JNull then and_then (py_float E price) (\<lambda>x. Inr (Some x))
           else Inr None))))))))"

definition yahoo_last_price ::
  "'f env \<Rightarrow> string \<Rightarrow> 'f trace \<Rightarrow> (error + 'f option) \<times> 'f trace" where
  "yahoo_last_price E ticker tr =
     (case requests_call E (yahoo_request ticker) tr of
        (Inl e, tr1) \<Rightarrow> (Inl e, tr1)
      | (Inr r, tr1) \<Rightarrow>
          (case raise_for_status r of
             Inl e \<Rightarrow> (Inl e, tr1)
           | Inr u \<Rightarrow>
               (case response_json r of
                  Inl e \<Rightarrow> (Inl e, tr1)
                | Inr data \<Rightarrow> (yahoo_extract E data, tr1))))"

subsection \<open>Notion helpers\<close>

definition notion_get_database_properties ::
  "'f env \<Rightarrow> config \<Rightarrow> string \<Rightarrow> 'f trace \<Rightarrow> (error + 'f json) \<times> 'f trace" where
  "notion_get_database_properties E G database_id tr =
     (let rq = \<lparr>meth = GET,
                url = ''https://api.notion.com/v1/databases/'' @ database_id,
                params = [],
                headers = NOTION_HEADERS G,
                json_body = None,
                timeout = 20\<rparr>
      in case requests_call E rq tr of
           (Inl e, tr1) \<Rightarrow> (Inl e, tr1)
         | (Inr r, tr1) \<Rightarrow>
             (case raise_for_status r of
                Inl e \<Rightarrow> (Inl e, tr1)
              | Inr u \<Rightarrow>
                  (and_then (response_json r) (\<lambda>j. py_get j ''properties'' (JObj [])), tr1)))"

definition find_request :: "config \<Rightarrow> string \<Rightarrow> string \<Rightarrow> 'f request" where
  "find_request G database_id title_value =
     \<lparr>meth = POST,
      url = ''https://api.notion.com/v1/databases/'' @ database_id @ ''/query'',
      params = [],
      headers = NOTION_HEADERS G,
      json_body = Some (JObj [(''filter'',
                    JObj [(''property'', JStr TITLE_PROP),
                          (''title'', JObj [(''equals'', JStr title_value)])])]),
      timeout = 20\<rparr>"

definition not_found_msg :: "string \<Rightarrow> string \<Rightarrow> string" where
  "not_found_msg database_id title_value =
     ''Notion DB('' @ database_id @ '') '' @ [CHR 0xE6, CHR 0x89, CHR 0xBE, CHR 0xE4, CHR 0xB8, CHR 0x8D, CHR 0xE5, CHR 0x88, CHR 0xB0] @ '' '' @ TITLE_PROP
       @ '' == '' @ [CHR 0x22] @ title_value @ [CHR 0x22] @ '' '' @ [CHR 0xE7, CHR 0x9A, CHR 0x84, CHR 0xE8, CHR 0xA1, CHR 0x8C]"

definition notion_find_page_id_by_title ::
  "'f env \<Rightarrow> config \<Rightarrow> string \<Rightarrow> string \<Rightarrow> 'f trace \<Rightarrow> (error + 'f json) \<times> 'f trace" where
  "notion_find_page_id_by_title E G database_id title_value tr =
     (case requests_call E (find_request G database_id title_value) tr of
        (Inl e, tr1) \<Rightarrow> (Inl e, tr1)
      | (Inr r, tr1) \<Rightarrow>
          (case raise_for_status r of
             Inl e \<Rightarrow> (Inl e, tr1)
           | Inr u \<Rightarrow>
               (and_then (response_json r) (\<lambda>j.
                and_then (py_get j ''results'' (JArr [])) (\<lambda>results.
                  if \<not> truthy E results
                  then Inl (RuntimeError (not_found_msg database_id title_value))
                  else and_then (py_getitem0 results) (\<lambda>first. py_getitem first ''id''))), tr1)))"

text \<open>\<^verbatim>\<open>datetime.isoformat()\<close> of an aware datetime whose zone is \<^verbatim>\<open>timezone.utc\<close>.\<close>

definition zpad :: "nat \<Rightarrow> nat \<Rightarrow> string" where
  "zpad w n = replicate (w - length (str_nat n)) CHR ''0'' @ str_nat n"

definition isoformat_utc :: "datetime \<Rightarrow> string" where
  "isoformat_utc d =
     zpad 4 (year d) @ ''-'' @ zpad 2 (month d) @ ''-'' @ zpad 2 (day d) @ ''T''
       @ zpad 2 (hour d) @ '':'' @ zpad 2 (minute d) @ '':'' @ zpad 2 (second d)
       @ (if microsecond d = 0 then [] else ''.'' @ zpad 6 (microsecond d))
       @ ''+00:00''"

definition now_stamp :: "'f env \<Rightarrow> 'f trace \<Rightarrow> 'f json" where
  "now_stamp E tr = JObj [(''date'', JObj [(''start'', JStr (isoformat_utc (utcnow E (length tr))))])]"

definition patch_request :: "(string \<times> string) list \<Rightarrow> string \<Rightarrow> (string \<times> 'f json) list \<Rightarrow> 'f request" where
  "patch_request hdrs page props_payload =
     \<lparr>meth = PATCH,
      url = ''https://api.notion.com/v1/pages/'' @ page,
      params = [],
      headers = hdrs,
      json_body = Some (JObj [(''properties'', JObj props_payload)]),
      timeout = 20\<rparr>"

definition missing_column_msg :: string where
  "missing_column_msg = ''Notion '' @ [CHR 0xE6, CHR 0x95, CHR 0xB0, CHR 0xE6, CHR 0x8D, CHR 0xAE, CHR 0xE5, CHR 0xBA, CHR 0x93, CHR 0xE7, CHR 0xBC, CHR 0xBA, CHR 0xE5, CHR 0xB0, CHR 0x91, CHR 0xE5, CHR 0x88, CHR 0x97] @ '': '' @ PRICE_PROP"

definition notion_update_price ::
  "'f env \<Rightarrow> config \<Rightarrow> 'f json \<Rightarrow> 'f json \<Rightarrow> 'f \<Rightarrow> 'f trace \<Rightarrow> (error + unit) \<times> 'f trace" where
  "notion_update_price E G database_props page_id price tr =
     (case py_in PRICE_PROP database_props of
        Inl e \<Rightarrow> (Inl e, tr)
      | Inr has_price \<Rightarrow>
          if \<not> has_price then (Inl (RuntimeError missing_column_msg), tr)
          else
            (let props_payload = [(PRICE_PROP, JObj [(''number'', JFloat price)])]
             in case py_in LAST_UPDATED_PROP database_props of
                  Inl e \<Rightarrow> (Inl e, tr)
                | Inr has_last_updated \<Rightarrow>
                    (let props_payload' =
                           (if has_last_updated
                            then AList.update LAST_UPDATED_PROP (now_stamp E tr) props_payload
                            else props_payload);
                         rq = patch_request (NOTION_HEADERS G) (py_format E page_id) props_payload'
                     in case requests_call E rq tr of
                          (Inl e, tr1) \<Rightarrow> (Inl e, tr1)
                        | (Inr r, tr1) \<Rightarrow>
                            (let tr2 =
                                   (if status_code r \<ge> 400
                                    then print (''[Notion] Update failed: ''
                                                @ str_int (status_code r) @ '' '' @ response_text r) tr1
                                    else tr1)
                             in (raise_for_status r, tr2)))))"

subsection \<open>The two synchronisation passes and \<^verbatim>\<open>main\<close>\<close>

definition py_upper :: "string \<Rightarrow> string" where
  "py_upper s =
     map (\<lambda>c. let n = (of_char c :: nat) in if 97 \<le> n \<and> n \<le> 122 then char_of (n - 32) else c) s"

definition check_mark :: string where
  "check_mark = [CHR 0xE2, CHR 0x9C, CHR 0x85]"

definition party_popper :: string where
  "party_popper = [CHR 0xF0, CHR 0x9F, CHR 0x8E, CHR 0x89]"

definition missing_price_msg :: "'f env \<Rightarrow> string \<Rightarrow> 'f json \<Rightarrow> string" where
  "missing_price_msg E cg_id prices =
     ''CoinGecko '' @ [CHR 0xE8, CHR 0xBF, CHR 0x94, CHR 0xE5, CHR 0x9B, CHR 0x9E, CHR 0xE7, CHR 0xBC, CHR 0xBA, CHR 0xE5, CHR 0xB0, CHR 0x91] @ '' '' @ cg_id @ ''/'' @ VS_CURRENCY
       @ '': '' @ py_format E prices"

text \<open>
  The test \<^verbatim>\<open>cg_id not in prices or VS_CURRENCY not in prices[cg_id]\<close>; the second operand
  is evaluated only when the first is false.
\<close>

definition price_missing :: "'f json \<Rightarrow> string \<Rightarrow> error + bool" where
  "price_missing prices cg_id =
     and_then (py_in cg_id prices) (\<lambda>has_id.
       if \<not> has_id then Inr True
       else and_then (py_getitem prices cg_id) (\<lambda>by_id.
            and_then (py_in VS_CURRENCY by_id) (\<lambda>has_vs. Inr (\<not> has_vs))))"

fun sync_crypto_items ::
  "'f env \<Rightarrow> config \<Rightarrow> 'f json \<Rightarrow> 'f json \<Rightarrow> (string \<times> string) list \<Rightarrow> 'f trace
     \<Rightarrow> (error + unit) \<times> 'f trace" where
  "sync_crypto_items E G db_props prices [] tr = (Inr (), tr)"
| "sync_crypto_items E G db_props prices ((notion_name, cg_id) # rest) tr =
     (case price_missing prices cg_id of
        Inl e \<Rightarrow> (Inl e, tr)
      | Inr missing \<Rightarrow>
          if missing then (Inl (RuntimeError (missing_price_msg E cg_id prices)), tr)
          else
            (case and_then (py_getitem prices cg_id) (\<lambda>by_id.
                  and_then (py_getitem by_id VS_CURRENCY) (py_float E)) of
               Inl e \<Rightarrow> (Inl e, tr)
             | Inr price \<Rightarrow>
                 (case notion_find_page_id_by_title E G (CRYPTO_DB_ID G) notion_name tr of
                    (Inl e, tr1) \<Rightarrow> (Inl e, tr1)
                  | (Inr page_id, tr1) \<Rightarrow>
                      (case notion_update_price E G db_props page_id price tr1 of
                         (Inl e, tr2) \<Rightarrow> (Inl e, tr2)
                       | (Inr u, tr2) \<Rightarrow>
                           sync_crypto_items E G db_props prices rest
                             (print (check_mark @ '' Crypto Updated '' @ notion_name @ '': ''
                                     @ repr E (JFloat price) @ '' '' @ py_upper VS_CURRENCY) tr2)))))"

definition sync_crypto :: "'f env \<Rightarrow> config \<Rightarrow> 'f trace \<Rightarrow> (error + unit) \<times> 'f trace" where
  "sync_crypto E G tr =
     (case notion_get_database_properties E G (CRYPTO_DB_ID G) (print ''=== Sync Crypto ==='' tr) of
        (Inl e, tr1) \<Rightarrow> (Inl e, tr1)
      | (Inr db_props, tr1) \<Rightarrow>
          (case coingecko_get_prices E (map snd CRYPTO) VS_CURRENCY tr1 of
             (Inl e, tr2) \<Rightarrow> (Inl e, tr2)
           | (Inr prices, tr2) \<Rightarrow> sync_crypto_items E G db_props prices CRYPTO tr2))"

definition no_quote_msg :: "string \<Rightarrow> string" where
  "no_quote_msg ticker = ''Yahoo '' @ [CHR 0xE6, CHR 0x97, CHR 0xA0, CHR 0xE6, CHR 0xB3, CHR 0x95, CHR 0xE8, CHR 0x8E, CHR 0xB7, CHR 0xE5, CHR 0x8F, CHR 0x96, CHR 0xE4, CHR 0xBB, CHR 0xB7, CHR 0xE6, CHR 0xA0, CHR 0xBC, CHR 0xEF, CHR 0xBC, CHR 0x9A] @ ticker @ [CHR 0xEF, CHR 0xBC, CHR 0x88, CHR 0xE5, CHR 0x8F, CHR 0xAF, CHR 0xE8, CHR 0x83, CHR 0xBD, CHR 0xE4, CHR 0xBB, CHR 0xA3, CHR 0xE7, CHR 0xA0, CHR 0x81, CHR 0xE4, CHR 0xB8, CHR 0x8D, CHR 0xE5, CHR 0xAF, CHR 0xB9, CHR 0xE6, CHR 0x88, CHR 0x96, CHR 0xE6, CHR 0x9C, CHR 0xAA, CHR 0xE6, CHR 0x94, CHR 0xB6, CHR 0xE5, CHR 0xBD, CHR 0x95, CHR 0xEF, CHR 0xBC, CHR 0x89]"

fun sync_etfs_items ::
  "'f env \<Rightarrow> config \<Rightarrow> 'f json \<Rightarrow> (string \<times> string) list \<Rightarrow> 'f trace
     \<Rightarrow> (error + unit) \<times> 'f trace" where
  "sync_etfs_items E G db_props [] tr = (Inr (), tr)"
| "sync_etfs_items E G db_props ((notion_name, ticker) # rest) tr =
     (case yahoo_last_price E ticker tr of
        (Inl e, tr1) \<Rightarrow> (Inl e, tr1)
      | (Inr None, tr1) \<Rightarrow> (Inl (RuntimeError (no_quote_msg ticker)), tr1)
      | (Inr (Some price), tr1) \<Rightarrow>
          (case notion_find_page_id_by_title E G (ETF_DB_ID G) notion_name tr1 of
             (Inl e, tr2) \<Rightarrow> (Inl e, tr2)
           | (Inr page_id, tr2) \<Rightarrow>
               (case notion_update_price E G db_props page_id price tr2 of
                  (Inl e, tr3) \<Rightarrow> (Inl e, tr3)
                | (Inr u, tr3) \<Rightarrow>
                    sync_etfs_items E G db_props rest
                      (print (check_mark @ '' ETF Updated '' @ notion_name @ '' ('' @ ticker @ ''): ''
                              @ repr E (JFloat price) @ '' AUD'') tr3))))"

definition sync_etfs :: "'f env \<Rightarrow> config \<Rightarrow> 'f trace \<Rightarrow> (error + unit) \<times> 'f trace" where
  "sync_etfs E G tr =
     (case notion_get_database_properties E G (ETF_DB_ID G)
             (print ''=== Sync ETFs (ASX via Yahoo) ==='' tr) of
        (Inl e, tr1) \<Rightarrow> (Inl e, tr1)
      | (Inr db_props, tr1) \<Rightarrow> sync_etfs_items E G db_props ETFS tr1)"

definition main :: "'f env \<Rightarrow> config \<Rightarrow> 'f trace \<Rightarrow> (error + unit) \<times> 'f trace" where
  "main E G tr =
     (case sync_crypto E G tr of
        (Inl e, tr1) \<Rightarrow> (Inl e, tr1)
      | (Inr u, tr1) \<Rightarrow>
          (case sync_etfs E G tr1 of
             (Inl e, tr2) \<Rightarrow> (Inl e, tr2)
           | (Inr u', tr2) \<Rightarrow> (Inr (), print (party_popper @ '' All done.'') tr2)))"

text \<open>Running the script: the module-level statements, then \<^verbatim>\<open>main()\<close>.\<close>

definition run :: "'f env \<Rightarrow> (error + unit) \<times> 'f trace" where
  "run E = (case load_config E of Inl e \<Rightarrow> (Inl e, []) | Inr G \<Rightarrow> main E G [])"

section \<open>\<^verbatim>\<open>crypto_sync.py\<close>\<close>

text \<open>
  The module reads the same three environment variables and binds these names to strings;
  its other module-level names are the imports, the two dicts \<^verbatim>\<open>COINS\<close> and
  \<^verbatim>\<open>NOTION_HEADERS\<close> and the five functions. A function of this script that reads a global
  string resolves the name in this table; a name that no module-level statement binds is
  not a built-in name either, and Python raises \<^verbatim>\<open>NameError\<close> for it.
\<close>

definition cs_str_globals :: "config \<Rightarrow> (string \<times> string) list" where
  "cs_str_globals G =
     [(''NOTION_TOKEN'', NOTION_TOKEN G),
      (''CRYPTO_DB_ID'', CRYPTO_DB_ID G),
      (''ETF_DB_ID'', ETF_DB_ID G),
      (''VS_CURRENCY'', ''aud'')]"

definition load_global :: "config \<Rightarrow> string \<Rightarrow> error + string" where
  "load_global G name =
     (case map_of (cs_str_globals G) name of None \<Rightarrow> Inl (NameError name) | Some v \<Rightarrow> Inr v)"

definition COINS :: "(string \<times> string) list" where
  "COINS = [(''Bitcoin'', ''bitcoin''), (''WLFI'', ''world-liberty-financial'')]"

definition cs_coingecko_get_prices ::
  "'f env \<Rightarrow> string list \<Rightarrow> string \<Rightarrow> 'f trace \<Rightarrow> (error + 'f json) \<times> 'f trace" where
  "cs_coingecko_get_prices E coin_ids vs tr =
     coingecko_attempts E (coingecko_request ''notion-crypto-sync/1.0'' coin_ids vs)
       ''CoinGecko rate limited too many times (429). Try lower frequency.'' [0..<6] tr"

definition cs_query_request :: "config \<Rightarrow> string \<Rightarrow> string \<Rightarrow> 'f request" where
  "cs_query_request G database_id name =
     \<lparr>meth = POST,
      url = ''https://api.notion.com/v1/databases/'' @ database_id @ ''/query'',
      params = [],
      headers = NOTION_HEADERS G,
      json_body = Some (JObj [(''filter'',
                    JObj [(''property'', JStr ''Name''),
                          (''title'', JObj [(''equals'', JStr name)])])]),
      timeout = 20\<rparr>"

definition cs_not_found_msg :: "string \<Rightarrow> string" where
  "cs_not_found_msg name =
     ''Notion '' @ [CHR 0xE4, CHR 0xB8, CHR 0xAD, CHR 0xE6, CHR 0x89, CHR 0xBE, CHR 0xE4, CHR 0xB8, CHR 0x8D, CHR 0xE5, CHR 0x88, CHR 0xB0] @ '' Name == '' @ [CHR 0x22] @ name @ [CHR 0x22] @ '' ''
       @ [CHR 0xE7, CHR 0x9A, CHR 0x84, CHR 0xE8, CHR 0xA1, CHR 0x8C, CHR 0xEF, CHR 0xBC, CHR 0x88, CHR 0xE6, CHR 0xB3, CHR 0xA8, CHR 0xE6, CHR 0x84, CHR 0x8F, CHR 0xE5, CHR 0xA4, CHR 0xA7, CHR 0xE5, CHR 0xB0, CHR 0x8F, CHR 0xE5, CHR 0x86, CHR 0x99] @ ''/'' @ [CHR 0xE7, CHR 0xA9, CHR 0xBA, CHR 0xE6, CHR 0xA0, CHR 0xBC, CHR 0xEF, CHR 0xBC, CHR 0x89]"

definition cs_notion_query_page_id_by_name ::
  "'f env \<Rightarrow> config \<Rightarrow> string \<Rightarrow> 'f trace \<Rightarrow> (error + 'f json) \<times> 'f trace" where
  "cs_notion_query_page_id_by_name E G name tr =
     (case load_global G ''NOTION_DATABASE_ID'' of
        Inl e \<Rightarrow> (Inl e, tr)
      | Inr database_id \<Rightarrow>
          (case requests_call E (cs_query_request G database_id name) tr of
             (Inl e, tr1) \<Rightarrow> (Inl e, tr1)
           | (Inr r, tr1) \<Rightarrow>
               (case raise_for_status r of
                  Inl e \<Rightarrow> (Inl e, tr1)
                | Inr u \<Rightarrow>
                    (and_then (response_json r) (\<lambda>j.
                     and_then (py_get j ''results'' (JArr [])) (\<lambda>results.
                       if \<not> truthy E results then Inl (RuntimeError (cs_not_found_msg name))
                       else and_then (py_getitem0 results) (\<lambda>first. py_getitem first ''id''))),
                     tr1))))"

definition cs_notion_get_database_properties ::
  "'f env \<Rightarrow> config \<Rightarrow> 'f trace \<Rightarrow> (error + 'f json) \<times> 'f trace" where
  "cs_notion_get_database_properties E G tr =
     (case load_global G ''NOTION_DATABASE_ID'' of
        Inl e \<Rightarrow> (Inl e, tr)
      | Inr database_id \<Rightarrow>
          (let rq = \<lparr>meth = GET,
                     url = ''https://api.notion.com/v1/databases/'' @ database_id,
                     params = [],
                     headers = NOTION_HEADERS G,
                     json_body = None,
                     timeout = 20\<rparr>
           in case requests_call E rq tr of
                (Inl e, tr1) \<Rightarrow> (Inl e, tr1)
              | (Inr r, tr1) \<Rightarrow>
                  (case raise_for_status r of
                     Inl e \<Rightarrow> (Inl e, tr1)
                   | Inr u \<Rightarrow>
                       (and_then (response_json r) (\<lambda>j. py_get j ''properties'' (JObj [])), tr1))))"

definition cs_notion_update_price ::
  "'f env \<Rightarrow> config \<Rightarrow> 'f json \<Rightarrow> 'f \<Rightarrow> bool \<Rightarrow> 'f trace \<Rightarrow> (error + unit) \<times> 'f trace" where
  "cs_notion_update_price E G page_id price has_last_updated tr =
     (let props = [(''Current Price'', JObj [(''number'', JFloat price)])];
          props' = (if has_last_updated
                    then AList.update ''Last Updated'' (now_stamp E tr) props
                    else props);
          rq = patch_request (NOTION_HEADERS G) (py_format E page_id) props'
      in case requests_call E rq tr of
           (Inl e, tr1) \<Rightarrow> (Inl e, tr1)
         | (Inr r, tr1) \<Rightarrow> (raise_for_status r, tr1))"

fun cs_main_items ::
  "'f env \<Rightarrow> config \<Rightarrow> bool \<Rightarrow> 'f json \<Rightarrow> (string \<times> string) list \<Rightarrow> 'f trace
     \<Rightarrow> (error + unit) \<times> 'f trace" where
  "cs_main_items E G has_last_updated prices [] tr = (Inr (), tr)"
| "cs_main_items E G has_last_updated prices ((notion_name, cg_id) # rest) tr =
     (case and_then (py_getitem prices cg_id) (\<lambda>by_id.
           and_then (load_global G ''VS_CURRENCY'') (\<lambda>vs.
           and_then (py_getitem by_id vs) (py_float E))) of
        Inl e \<Rightarrow> (Inl e, tr)
      | Inr price \<Rightarrow>
          (case cs_notion_query_page_id_by_name E G notion_name tr of
             (Inl e, tr1) \<Rightarrow> (Inl e, tr1)
           | (Inr page_id, tr1) \<Rightarrow>
               (case cs_notion_update_price E G page_id price has_last_updated tr1 of
                  (Inl e, tr2) \<Rightarrow> (Inl e, tr2)
                | (Inr u, tr2) \<Rightarrow>
                    (case load_global G ''VS_CURRENCY'' of
                       Inl e \<Rightarrow> (Inl e, tr2)
                     | Inr vs \<Rightarrow>
                         cs_main_items E G has_last_updated prices rest
                           (print (check_mark @ '' Updated '' @ notion_name @ '': ''
                                   @ repr E (JFloat price) @ '' '' @ py_upper vs) tr2)))))"

definition cs_main :: "'f env \<Rightarrow> config \<Rightarrow> 'f trace \<Rightarrow> (error + unit) \<times> 'f trace" where
  "cs_main E G tr =
     (case cs_notion_get_database_properties E G tr of
        (Inl e, tr1) \<Rightarrow> (Inl e, tr1)
      | (Inr db_props, tr1) \<Rightarrow>
          (case py_in ''Last Updated'' db_props of
             Inl e \<Rightarrow> (Inl e, tr1)
           | Inr has_last_updated \<Rightarrow>
               (let tr2 = print (''[Notion] Last Updated: ''
                                 @ (if has_last_updated then ''YES'' else ''NO (skip)'')) tr1
                in case load_global G ''VS_CURRENCY'' of
                     Inl e \<Rightarrow> (Inl e, tr2)
                   | Inr vs \<Rightarrow>
                       (case cs_coingecko_get_prices E (map snd COINS) vs tr2 of
                          (Inl e, tr3) \<Rightarrow> (Inl e, tr3)
                        | (Inr prices, tr3) \<Rightarrow>
                            (case cs_main_items E G has_last_updated prices COINS tr3 of
                               (Inl e, tr4) \<Rightarrow> (Inl e, tr4)
                             | (Inr u, tr4) \<Rightarrow>
                                 (Inr (), print (party_popper @ '' Done.'') tr4))))))"

definition cs_run :: "'f env \<Rightarrow> (error + unit) \<times> 'f trace" where
  "cs_run E = (case load_config E of Inl e \<Rightarrow> (Inl e, []) | Inr G \<Rightarrow> cs_main E G [])"

section \<open>Vocabulary of the properties\<close>

text \<open>
  One round of the rate-limit handling as it shows in the trace: the call, the message
  and the sleep of \<open>2 * (attempt + 1)\<close> seconds.
\<close>

definition backoff_round :: "'f request \<Rightarrow> nat \<Rightarrow> 'f trace" where
  "backoff_round rq attempt =
     [Request rq, Print (rate_limited_msg (2 * (attempt + 1))), Sleep (2 * (attempt + 1))]"

definition backoff_rounds :: "'f request \<Rightarrow> nat list \<Rightarrow> 'f trace" where
  "backoff_rounds rq attempts = concat (map (backoff_round rq) attempts)"

text \<open>
  The two entries an update can write: the number under the price field, and the date
  under the update-timestamp field.
\<close>

definition price_payload :: "'f \<Rightarrow> (string \<times> 'f json) list" where
  "price_payload price = [(PRICE_PROP, JObj [(''number'', JFloat price)])]"

definition stamp_payload :: "string \<Rightarrow> (string \<times> 'f json) list" where
  "stamp_payload ts = [(LAST_UPDATED_PROP, JObj [(''date'', JObj [(''start'', JStr ts)])])]"

text \<open>
  The fields of a \<^verbatim>\<open>datetime\<close> object are always within these ranges.
\<close>

definition valid_datetime :: "datetime \<Rightarrow> bool" where
  "valid_datetime d \<longleftrightarrow>
     1 \<le> year d \<and> year d \<le> 9999 \<and> 1 \<le> month d \<and> month d \<le> 12 \<and> 1 \<le> day d \<and> day d \<le> 31
     \<and> hour d < 24 \<and> minute d < 60 \<and> second d < 60 \<and> microsecond d < 1000000"

section \<open>Example environments\<close>

text \<open>
  Concrete runs for the instances below. Floats are read as reals, the clock stands still
  and \<^verbatim>\<open>repr\<close> is a placeholder.
\<close>

definition example_clock :: datetime where
  "example_clock =
     \<lparr>year = 2024, month = 5, day = 17, hour = 8, minute = 30, second = 0, microsecond = 123456\<rparr>"

definition example_env :: "(nat \<Rightarrow> real request \<Rightarrow> real outcome) \<Rightarrow> real env" where
  "example_env server =
     \<lparr>http = server,
      utcnow = (\<lambda>n. example_clock),
      environ = (\<lambda>k. None),
      float_of_int = (\<lambda>i. Some (of_int i)),
      float_of_str = (\<lambda>s. None),
      float_truth = (\<lambda>x. x \<noteq> 0),
      repr = (\<lambda>v. ''<repr>'')\<rparr>"

definition reply :: "int \<Rightarrow> real json option \<Rightarrow> real outcome" where
  "reply code doc = Response \<lparr>status_code = code, response_text = [], body = doc\<rparr>"

definition bitcoin_quote :: "real json" where
  "bitcoin_quote = JObj [(''bitcoin'', JObj [(''aud'', JFloat 97250.5)])]"

definition limited_twice :: "real env" where
  "limited_twice = example_env (\<lambda>n rq. if n < 2 then reply 429 None else reply 200 (Some bitcoin_quote))"

definition always_limited :: "real env" where
  "always_limited = example_env (\<lambda>n rq. reply 429 None)"

definition server_error :: "real env" where
  "server_error = example_env (\<lambda>n rq. reply 500 None)"

definition redirect_after_limit :: "real env" where
  "redirect_after_limit =
     example_env (\<lambda>n rq. if n < 1 then reply 429 None else reply 302 (Some bitcoin_quote))"

definition only_bitcoin :: "real env" where
  "only_bitcoin = example_env (\<lambda>n rq. reply 200 (Some bitcoin_quote))"

definition example_config :: config where
  "example_config = \<lparr>NOTION_TOKEN = ''secret'', CRYPTO_DB_ID = ''crypto-db'', ETF_DB_ID = ''etf-db''\<rparr>"

definition yahoo_reply :: "int \<Rightarrow> real json \<Rightarrow> real json \<Rightarrow> real outcome" where
  "yahoo_reply code result err =
     reply code (Some (JObj [(''chart'', JObj [(''result'', result), (''error'', err)])]))"

definition not_found_error :: "real json" where
  "not_found_error =
     JObj [(''code'', JStr ''Not Found''), (''description'', JStr ''No data found, symbol may be delisted'')]"

definition unknown_symbol :: "real env" where
  "unknown_symbol = example_env (\<lambda>n rq. yahoo_reply 404 JNull not_found_error)"

definition live_quote :: "real json" where
  "live_quote = JArr [JObj [(''meta'', JObj [(''regularMarketPrice'', JFloat 42.17)])]]"

definition empty_error :: "real env" where
  "empty_error = example_env (\<lambda>n rq. yahoo_reply 200 live_quote (JObj []))"

definition reported_error :: "real env" where
  "reported_error = example_env (\<lambda>n rq. yahoo_reply 200 JNull not_found_error)"

definition zero_live_quote :: "real json" where
  "zero_live_quote =
     JArr [JObj [(''meta'', JObj [(''regularMarketPrice'', JFloat 0), (''previousClose'', JFloat 41.9)])]]"

definition zero_live :: "real env" where
  "zero_live = example_env (\<lambda>n rq. yahoo_reply 200 zero_live_quote JNull)"

definition one_row :: "real env" where
  "one_row = example_env (\<lambda>n rq. reply 200 (Some (JObj [(''results'',
     JArr [JObj [(''id'', JStr ''page-1'')], JObj [(''id'', JStr ''page-2'')]])])))"

definition no_row :: "real env" where
  "no_row = example_env (\<lambda>n rq. reply 200 (Some (JObj [(''results'', JArr [])])))"

definition accepts_all :: "real env" where
  "accepts_all = example_env (\<lambda>n rq. reply 200 (Some (JObj [])))"

section \<open>Lemmas\<close>

subsection \<open>The trace and the retry loop\<close>

lemma nreq_append: "nreq (tr @ tr') = nreq tr + nreq tr'"
  by (simp add: nreq_def)

lemma nreq_backoff_round: "nreq (backoff_round rq a) = 1"
  by (simp add: nreq_def backoff_round_def)

lemma attempt_429:
  assumes "http E (nreq tr) rq = Response r" and "status_code r = 429"
  shows "coingecko_attempts E rq msg (a # rest) tr
         = coingecko_attempts E rq msg rest (tr @ backoff_round rq a)"
  using assms by (simp add: requests_call_def print_def time_sleep_def backoff_round_def Let_def)

lemma attempts_429:
  assumes "\<forall>i<k. \<exists>r. http E (nreq tr + i) rq = Response r \<and> status_code r = 429"
  shows "coingecko_attempts E rq msg ([a..<a + k] @ rest) tr
         = coingecko_attempts E rq msg rest (tr @ backoff_rounds rq [a..<a + k])"
  using assms
proof (induction k arbitrary: a tr)
  case 0
  then show ?case by (simp add: backoff_rounds_def)
next
  case (Suc k)
  from Suc.prems obtain r where r: "http E (nreq tr) rq = Response r" "status_code r = 429"
    by force
  have later: "\<forall>i<k. \<exists>r. http E (nreq (tr @ backoff_round rq a) + i) rq = Response r \<and> status_code r = 429"
    using Suc.prems by (auto simp: nreq_append nreq_backoff_round)
  have split: "[a..<a + Suc k] = a # [Suc a..<Suc a + k]"
    by (simp add: upt_rec)
  have rounds: "backoff_rounds rq [a..<a + Suc k]
                = backoff_round rq a @ backoff_rounds rq [Suc a..<Suc a + k]"
    by (simp only: split) (simp add: backoff_rounds_def)
  have "coingecko_attempts E rq msg ([a..<a + Suc k] @ rest) tr
        = coingecko_attempts E rq msg (a # ([Suc a..<Suc a + k] @ rest)) tr"
    by (simp only: split append_Cons)
  also have "\<dots> = coingecko_attempts E rq msg ([Suc a..<Suc a + k] @ rest) (tr @ backoff_round rq a)"
    by (rule attempt_429 [OF r])
  also have "\<dots> = coingecko_attempts E rq msg rest
                      ((tr @ backoff_round rq a) @ backoff_rounds rq [Suc a..<Suc a + k])"
    by (rule Suc.IH [OF later])
  finally show ?case
    by (simp only: rounds append_assoc)
qed

lemma attempt_ok:
  assumes "http E (nreq tr) rq = Response r"
    and "\<not> (400 \<le> status_code r \<and> status_code r < 600)"
    and "body r = Some j"
  shows "coingecko_attempts E rq msg (a # rest) tr = (Inr j, tr @ [Request rq])"
  using assms by (auto simp add: requests_call_def raise_for_status_def response_json_def)

lemma attempt_http_error:
  assumes "http E (nreq tr) rq = Response r"
    and "400 \<le> status_code r" and "status_code r < 600" and "status_code r \<noteq> 429"
  shows "coingecko_attempts E rq msg (a # rest) tr = (Inl (HTTPError (status_code r)), tr @ [Request rq])"
  using assms by (auto simp add: requests_call_def raise_for_status_def response_json_def)

lemma sleeps_append: "sleeps (tr @ tr') = sleeps tr @ sleeps tr'"
  by (induction tr rule: sleeps.induct) auto

lemma requests_of_append: "requests_of (tr @ tr') = requests_of tr @ requests_of tr'"
  by (induction tr rule: requests_of.induct) auto

lemma sleeps_backoff_rounds: "sleeps (backoff_rounds rq as) = map (\<lambda>i. 2 * (i + 1)) as"
  by (induction as) (auto simp: backoff_rounds_def backoff_round_def)

lemma requests_of_backoff_rounds: "requests_of (backoff_rounds rq as) = replicate (length as) rq"
  by (induction as) (auto simp: backoff_rounds_def backoff_round_def)

lemma sorted_delays: "sorted_wrt (<) (map (\<lambda>i. 2 * (i + 1)) [0..<k::nat])"
  by (simp add: sorted_wrt_map sorted_wrt_iff_nth_less)

lemma nreq_backoff_rounds: "nreq (backoff_rounds rq as) = length as"
  by (induction as) (simp_all add: backoff_rounds_def nreq_def backoff_round_def)

lemma six_attempts:
  assumes "k < 6"
  shows "[0..<6] = [0..<0 + k] @ k # [Suc k..<6]"
proof -
  have "[0..<k + (6 - k)] = [0..<k] @ [k..<k + (6 - k)]"
    by (rule upt_add_eq_append) simp
  moreover have "[k..<6] = k # [Suc k..<6]"
    using assms by (rule upt_conv_Cons)
  ultimately show ?thesis
    using assms by simp
qed

lemma attempts_then_ok:
  assumes "k < 6"
    and "\<forall>i<k. \<exists>r. http E (nreq tr + i) rq = Response r \<and> status_code r = 429"
    and "http E (nreq tr + k) rq = Response r"
    and "\<not> (400 \<le> status_code r \<and> status_code r < 600)"
    and "body r = Some j"
  shows "coingecko_attempts E rq msg [0..<6] tr = (Inr j, tr @ backoff_rounds rq [0..<k] @ [Request rq])"
proof -
  let ?tr = "tr @ backoff_rounds rq [0..<0 + k]"
  have n: "nreq ?tr = nreq tr + k"
    by (simp add: nreq_append nreq_backoff_rounds)
  have "coingecko_attempts E rq msg [0..<6] tr
        = coingecko_attempts E rq msg ([0..<0 + k] @ k # [Suc k..<6]) tr"
    by (simp only: six_attempts [OF assms(1)])
  also have "\<dots> = coingecko_attempts E rq msg (k # [Suc k..<6]) ?tr"
    by (rule attempts_429 [OF assms(2)])
  also have "\<dots> = (Inr j, ?tr @ [Request rq])"
    using assms(3-5) by (intro attempt_ok [where r = r]) (simp_all add: nreq_append nreq_backoff_rounds)
  finally show ?thesis by simp
qed

lemma attempts_then_http_error:
  assumes "k < 6"
    and "\<forall>i<k. \<exists>r. http E (nreq tr + i) rq = Response r \<and> status_code r = 429"
    and "http E (nreq tr + k) rq = Response r"
    and "400 \<le> status_code r" and "status_code r < 600" and "status_code r \<noteq> 429"
  shows "coingecko_attempts E rq msg [0..<6] tr
         = (Inl (HTTPError (status_code r)), tr @ backoff_rounds rq [0..<k] @ [Request rq])"
proof -
  let ?tr = "tr @ backoff_rounds rq [0..<0 + k]"
  have n: "nreq ?tr = nreq tr + k"
    by (simp add: nreq_append nreq_backoff_rounds)
  have "coingecko_attempts E rq msg [0..<6] tr
        = coingecko_attempts E rq msg ([0..<0 + k] @ k # [Suc k..<6]) tr"
    by (simp only: six_attempts [OF assms(1)])
  also have "\<dots> = coingecko_attempts E rq msg (k # [Suc k..<6]) ?tr"
    by (rule attempts_429 [OF assms(2)])
  also have "\<dots> = (Inl (HTTPError (status_code r)), ?tr @ [Request rq])"
    using assms(3-6) by (intro attempt_http_error [where r = r]) (simp_all add: nreq_append nreq_backoff_rounds)
  finally show ?thesis by simp
qed

lemma attempts_exhausted:
  assumes "\<forall>i<6. \<exists>r. http E (nreq tr + i) rq = Response r \<and> status_code r = 429"
  shows "coingecko_attempts E rq msg [0..<6] tr
         = (Inl (RuntimeError msg), tr @ backoff_rounds rq [0..<6])"
  using attempts_429 [OF assms, of msg 0 "[]"] by simp

subsection \<open>Errors reach the end of the run\<close>

lemma main_aborts_in_sync_crypto:
  "sync_crypto E G tr = (Inl e, tr') \<Longrightarrow> main E G tr = (Inl e, tr')"
  by (simp add: main_def)

lemma main_aborts_in_sync_etfs:
  "sync_crypto E G tr = (Inr u, tr1) \<Longrightarrow> sync_etfs E G tr1 = (Inl e, tr') \<Longrightarrow>
   main E G tr = (Inl e, tr')"
  by (simp add: main_def)

lemma sync_crypto_enters_loop:
  assumes "notion_get_database_properties E G (CRYPTO_DB_ID G) (print ''=== Sync Crypto ==='' tr)
           = (Inr db_props, tr1)"
    and "coingecko_get_prices E (map snd CRYPTO) VS_CURRENCY tr1 = (Inr prices, tr2)"
  shows "sync_crypto E G tr = sync_crypto_items E G db_props prices CRYPTO tr2"
  using assms by (simp add: sync_crypto_def)

lemma sync_etfs_enters_loop:
  assumes "notion_get_database_properties E G (ETF_DB_ID G)
             (print ''=== Sync ETFs (ASX via Yahoo) ==='' tr) = (Inr db_props, tr1)"
  shows "sync_etfs E G tr = sync_etfs_items E G db_props ETFS tr1"
  using assms by (simp add: sync_etfs_def)

subsection \<open>The unbound name of \<^verbatim>\<open>crypto_sync.py\<close>\<close>

lemma unbound_name:
  "load_global G ''NOTION_DATABASE_ID'' = Inl (NameError ''NOTION_DATABASE_ID'')"
  by (simp add: load_global_def cs_str_globals_def)

lemma cs_schema_read_unbound:
  "cs_notion_get_database_properties E G tr = (Inl (NameError ''NOTION_DATABASE_ID''), tr)"
  by (simp add: cs_notion_get_database_properties_def unbound_name)

lemma cs_main_unbound: "cs_main E G tr = (Inl (NameError ''NOTION_DATABASE_ID''), tr)"
  by (simp add: cs_main_def cs_schema_read_unbound)

section \<open>The batch crypto quote operation\<close>

text \<open>
  C1. In both scripts, when the first \<open>k < 6\<close> calls of \<^verbatim>\<open>coingecko_get_prices\<close> are
  answered with status 429 and the next one with a status outside the 4xx and 5xx classes
  and a JSON body \<open>j\<close>, the operation returns \<open>j\<close>. It has then issued the same request
  \<open>k + 1\<close> times, and after the attempt with index \<open>i\<close> it slept \<open>2 * (i + 1)\<close> seconds, so
  the delays 2, 4, 6, ... increase strictly.
\<close>

theorem coingecko_retry_backoff:
  assumes "fetch = coingecko_get_prices \<and> agent = ''notion-sync/1.0''
           \<or> fetch = cs_coingecko_get_prices \<and> agent = ''notion-crypto-sync/1.0''"
    and "rq = coingecko_request agent coin_ids vs"
    and "k < 6"
    and "\<forall>i<k. \<exists>r. http E (nreq tr + i) rq = Response r \<and> status_code r = 429"
    and "http E (nreq tr + k) rq = Response r"
    and "\<not> (400 \<le> status_code r \<and> status_code r < 600)"
    and "body r = Some j"
  shows "fetch E coin_ids vs tr = (Inr j, tr @ backoff_rounds rq [0..<k] @ [Request rq])
         \<and> requests_of (backoff_rounds rq [0..<k] @ [Request rq]) = replicate (k + 1) rq
         \<and> sleeps (backoff_rounds rq [0..<k] @ [Request rq]) = map (\<lambda>i. 2 * (i + 1)) [0..<k]
         \<and> sorted_wrt (<) (sleeps (backoff_rounds rq [0..<k] @ [Request rq]))"
proof -
  have run: "coingecko_attempts E rq msg [0..<6] tr
             = (Inr j, tr @ backoff_rounds rq [0..<k] @ [Request rq])" for msg
    using assms(3-7) by (rule attempts_then_ok)
  have "fetch E coin_ids vs tr = (Inr j, tr @ backoff_rounds rq [0..<k] @ [Request rq])"
    using assms(1,2) run
    by (auto simp: coingecko_get_prices_def cs_coingecko_get_prices_def)
  moreover have "requests_of (backoff_rounds rq [0..<k] @ [Request rq]) = replicate (k + 1) rq"
    by (simp add: requests_of_append requests_of_backoff_rounds replicate_append_same)
  moreover have s: "sleeps (backoff_rounds rq [0..<k] @ [Request rq]) = map (\<lambda>i. 2 * (i + 1)) [0..<k]"
    by (simp add: sleeps_append sleeps_backoff_rounds)
  moreover have "sorted_wrt (<) (sleeps (backoff_rounds rq [0..<k] @ [Request rq]))"
    by (simp only: s sorted_delays)
  ultimately show ?thesis by blast
qed


text \<open>An instance: two 429 answers, then the quote of the end-to-end scenario.\<close>

theorem coingecko_retry_backoff_witness:
  "coingecko_get_prices limited_twice [''bitcoin''] ''aud'' []
     = (Inr bitcoin_quote,
        [Request (coingecko_request ''notion-sync/1.0'' [''bitcoin''] ''aud''),
         Print ''[CoinGecko] 429 rate limited, sleep 2s...'',
         Sleep 2,
         Request (coingecko_request ''notion-sync/1.0'' [''bitcoin''] ''aud''),
         Print ''[CoinGecko] 429 rate limited, sleep 4s...'',
         Sleep 4,
         Request (coingecko_request ''notion-sync/1.0'' [''bitcoin''] ''aud'')])"
proof -
  let ?rq = "coingecko_request ''notion-sync/1.0'' [''bitcoin''] ''aud'' :: real request"
  let ?r = "\<lparr>status_code = 200, response_text = [], body = Some bitcoin_quote\<rparr>"
  have limited: "\<forall>i<2. \<exists>r. http limited_twice (nreq [] + i) ?rq = Response r \<and> status_code r = 429"
    by (simp add: limited_twice_def example_env_def reply_def nreq_def)
  have success: "http limited_twice (nreq [] + 2) ?rq = Response ?r"
    by (simp add: limited_twice_def example_env_def reply_def nreq_def)
  have two: "[0..<2] = [0, Suc 0]"
    by (simp add: upt_rec)
  have "str_nat 2 = ''2''" "str_nat 4 = ''4''"
    by code_simp+
  with coingecko_retry_backoff [of coingecko_get_prices "''notion-sync/1.0''" ?rq "[''bitcoin'']"
      "''aud''" 2 limited_twice "[]" ?r bitcoin_quote, OF _ refl _ limited success]
  show ?thesis
    by (simp add: two backoff_rounds_def backoff_round_def rate_limited_msg_def)
qed

text \<open>
  C2, as the claim states it, fails for a status that is neither a success nor in the 4xx
  and 5xx classes. The operation leaves the judgement to \<^verbatim>\<open>raise_for_status\<close>, which
  raises for those two classes only: here the second answer has status 302 and a JSON
  body, and the operation returns that body instead of failing.
\<close>

theorem coingecko_redirect_counterexample:
  "http redirect_after_limit 1 (coingecko_request ''notion-sync/1.0'' [''bitcoin''] ''aud'')
     = Response \<lparr>status_code = 302, response_text = [], body = Some bitcoin_quote\<rparr>
   \<and> coingecko_get_prices redirect_after_limit [''bitcoin''] ''aud'' []
     = (Inr bitcoin_quote,
        [Request (coingecko_request ''notion-sync/1.0'' [''bitcoin''] ''aud''),
         Print ''[CoinGecko] 429 rate limited, sleep 2s...'',
         Sleep 2,
         Request (coingecko_request ''notion-sync/1.0'' [''bitcoin''] ''aud'')])"
proof -
  let ?rq = "coingecko_request ''notion-sync/1.0'' [''bitcoin''] ''aud'' :: real request"
  let ?r = "\<lparr>status_code = 302, response_text = [], body = Some bitcoin_quote\<rparr>"
  have limited: "\<forall>i<1. \<exists>r. http redirect_after_limit (nreq [] + i) ?rq = Response r \<and> status_code r = 429"
    by (simp add: redirect_after_limit_def example_env_def reply_def nreq_def)
  have answer: "http redirect_after_limit (nreq [] + 1) ?rq = Response ?r"
    by (simp add: redirect_after_limit_def example_env_def reply_def nreq_def)
  have one: "[0..<1] = [0]"
    by simp
  have digit: "str_nat 2 = ''2''"
    by code_simp
  have "coingecko_attempts redirect_after_limit ?rq ''CoinGecko rate limited too many times (429).''
          [0..<6] []
        = (Inr bitcoin_quote, [] @ backoff_rounds ?rq [0..<1] @ [Request ?rq])"
    by (rule attempts_then_ok [OF _ limited answer]) simp_all
  then have "coingecko_get_prices redirect_after_limit [''bitcoin''] ''aud'' []
             = (Inr bitcoin_quote, backoff_rounds ?rq [0] @ [Request ?rq])"
    by (simp add: coingecko_get_prices_def)
  with answer show ?thesis
    by (simp add: nreq_def backoff_rounds_def backoff_round_def rate_limited_msg_def digit)
qed

text \<open>
  C2, amended. In both scripts, six answers with status 429 in a row make the operation
  fail with its own \<^verbatim>\<open>RuntimeError\<close> about the rate limit after exactly six calls, and
  there is no seventh. An answer with another status of the 4xx and 5xx classes at any
  attempt fails at once with the \<^verbatim>\<open>HTTPError\<close> of \<^verbatim>\<open>raise_for_status\<close>: that call is the
  last event of the trace. A status outside those classes is taken as a success.
\<close>

theorem coingecko_exhaustion_and_fail_fast:
  assumes "fetch = coingecko_get_prices \<and> agent = ''notion-sync/1.0''
             \<and> msg = ''CoinGecko rate limited too many times (429).''
           \<or> fetch = cs_coingecko_get_prices \<and> agent = ''notion-crypto-sync/1.0''
             \<and> msg = ''CoinGecko rate limited too many times (429). Try lower frequency.''"
    and "rq = coingecko_request agent coin_ids vs"
  shows "((\<forall>i<6. \<exists>r. http E (nreq tr + i) rq = Response r \<and> status_code r = 429) \<longrightarrow>
            fetch E coin_ids vs tr = (Inl (RuntimeError msg), tr @ backoff_rounds rq [0..<6])
            \<and> requests_of (backoff_rounds rq [0..<6]) = replicate 6 rq)
         \<and> (k < 6 \<and> (\<forall>i<k. \<exists>r. http E (nreq tr + i) rq = Response r \<and> status_code r = 429)
              \<and> http E (nreq tr + k) rq = Response r
              \<and> 400 \<le> status_code r \<and> status_code r < 600 \<and> status_code r \<noteq> 429 \<longrightarrow>
            fetch E coin_ids vs tr
              = (Inl (HTTPError (status_code r)), tr @ backoff_rounds rq [0..<k] @ [Request rq]))"
proof (intro conjI impI)
  have unfold: "fetch E coin_ids vs tr = coingecko_attempts E rq msg [0..<6] tr"
    using assms by (auto simp: coingecko_get_prices_def cs_coingecko_get_prices_def)
  {
    assume "\<forall>i<6. \<exists>r. http E (nreq tr + i) rq = Response r \<and> status_code r = 429"
    then show "fetch E coin_ids vs tr = (Inl (RuntimeError msg), tr @ backoff_rounds rq [0..<6])"
      by (simp only: unfold attempts_exhausted)
  }
  show "requests_of (backoff_rounds rq [0..<6]) = replicate 6 rq"
    by (simp add: requests_of_backoff_rounds)
  assume "k < 6 \<and> (\<forall>i<k. \<exists>r. http E (nreq tr + i) rq = Response r \<and> status_code r = 429)
              \<and> http E (nreq tr + k) rq = Response r
              \<and> 400 \<le> status_code r \<and> status_code r < 600 \<and> status_code r \<noteq> 429"
  then show "fetch E coin_ids vs tr
              = (Inl (HTTPError (status_code r)), tr @ backoff_rounds rq [0..<k] @ [Request rq])"
    unfolding unfold by (intro attempts_then_http_error) blast+
qed


text \<open>Instances: a server that always answers 429, and one that answers 500.\<close>

theorem coingecko_exhaustion_and_fail_fast_witness:
  "fst (coingecko_get_prices always_limited [''bitcoin''] ''aud'' [])
     = Inl (RuntimeError ''CoinGecko rate limited too many times (429).'')
   \<and> length (requests_of (snd (coingecko_get_prices always_limited [''bitcoin''] ''aud'' []))) = 6
   \<and> sleeps (snd (coingecko_get_prices always_limited [''bitcoin''] ''aud'' [])) = [2, 4, 6, 8, 10, 12]
   \<and> coingecko_get_prices server_error [''bitcoin''] ''aud'' []
     = (Inl (HTTPError 500), [Request (coingecko_request ''notion-sync/1.0'' [''bitcoin''] ''aud'')])"
proof -
  let ?rq = "coingecko_request ''notion-sync/1.0'' [''bitcoin''] ''aud'' :: real request"
  let ?msg = "''CoinGecko rate limited too many times (429).''"
  let ?r = "\<lparr>status_code = 500, response_text = [], body = None\<rparr> :: real response"
  have limited: "\<forall>i<6. \<exists>r. http always_limited (nreq [] + i) ?rq = Response r \<and> status_code r = 429"
    by (simp add: always_limited_def example_env_def reply_def)
  have failing: "0 < (6::nat) \<and> (\<forall>i<0. \<exists>r. http server_error (nreq [] + i) ?rq = Response r \<and> status_code r = 429)
      \<and> http server_error (nreq [] + 0) ?rq = Response ?r
      \<and> 400 \<le> status_code ?r \<and> status_code ?r < 600 \<and> status_code ?r \<noteq> 429"
    by (simp add: server_error_def example_env_def reply_def)
  have six: "[0..<6] = [0, 1, 2, 3, 4, 5]"
    by code_simp
  have a: "coingecko_get_prices always_limited [''bitcoin''] ''aud'' []
           = (Inl (RuntimeError ?msg), [] @ backoff_rounds ?rq [0..<6])"
    using coingecko_exhaustion_and_fail_fast [of coingecko_get_prices "''notion-sync/1.0''" ?msg ?rq
        "[''bitcoin'']" "''aud''" always_limited "[]"] limited
    by blast
  have b: "coingecko_get_prices server_error [''bitcoin''] ''aud'' []
           = (Inl (HTTPError (status_code ?r)), [] @ backoff_rounds ?rq [0..<0] @ [Request ?rq])"
    using coingecko_exhaustion_and_fail_fast [of coingecko_get_prices "''notion-sync/1.0''" ?msg ?rq
        "[''bitcoin'']" "''aud''" server_error "[]" 0 ?r] failing
    by blast
  show ?thesis
    by (simp add: a b six backoff_rounds_def backoff_round_def)
qed

subsection \<open>What the caller does with the mapping\<close>

lemma names_cg_id: "sublist cg_id (missing_price_msg E cg_id prices)"
proof -
  have "missing_price_msg E cg_id prices
        = (''CoinGecko '' @ [CHR 0xE8, CHR 0xBF, CHR 0x94, CHR 0xE5, CHR 0x9B, CHR 0x9E, CHR 0xE7, CHR 0xBC, CHR 0xBA, CHR 0xE5, CHR 0xB0, CHR 0x91] @ '' '')
          @ cg_id @ (''/'' @ VS_CURRENCY @ '': '' @ py_format E prices)"
    by (simp add: missing_price_msg_def)
  then show ?thesis
    by (simp only: sublist_appendI)
qed

lemma names_vs: "sublist VS_CURRENCY (missing_price_msg E cg_id prices)"
proof -
  have "missing_price_msg E cg_id prices
        = (''CoinGecko '' @ [CHR 0xE8, CHR 0xBF, CHR 0x94, CHR 0xE5, CHR 0x9B, CHR 0x9E, CHR 0xE7, CHR 0xBC, CHR 0xBA, CHR 0xE5, CHR 0xB0, CHR 0x91] @ '' '' @ cg_id @ ''/'')
          @ VS_CURRENCY @ ('': '' @ py_format E prices)"
    by (simp add: missing_price_msg_def)
  then show ?thesis
    by (simp only: sublist_appendI)
qed

lemma map_of_None_iff: "map_of ps k = None \<longleftrightarrow> k \<notin> fst ` set ps"
  by (simp add: map_of_eq_None_iff)

lemma price_missing_absent:
  assumes "cg_id \<notin> fst ` set ps
           \<or> (\<exists>qs. map_of ps cg_id = Some (JObj qs) \<and> VS_CURRENCY \<notin> fst ` set qs)"
  shows "price_missing (JObj ps) cg_id = Inr True"
proof (cases "cg_id \<in> fst ` set ps")
  case False
  then show ?thesis
    by (simp add: price_missing_def and_then_def)
next
  case True
  with assms obtain qs where qs: "map_of ps cg_id = Some (JObj qs)" "VS_CURRENCY \<notin> fst ` set qs"
    by blast
  with True show ?thesis
    by (simp add: price_missing_def and_then_def)
qed

text \<open>
  C3. \<^verbatim>\<open>coingecko_get_prices\<close> returns the decoded body of the successful answer as it
  is, whatever it contains and whatever was asked for. The loop of \<^verbatim>\<open>sync_crypto\<close> is what
  looks for the pair: when the mapping lacks the coin identifier, or the mapping under
  that identifier lacks the quote currency, the iteration raises a \<^verbatim>\<open>RuntimeError\<close>
  whose message contains the identifier and the currency, before any call for that
  instrument.
\<close>

theorem batch_quote_returned_unvalidated:
  assumes "rq = coingecko_request ''notion-sync/1.0'' coin_ids vs"
    and "k < 6"
    and "\<forall>i<k. \<exists>r. http E (nreq tr + i) rq = Response r \<and> status_code r = 429"
    and "http E (nreq tr + k) rq = Response r"
    and "\<not> (400 \<le> status_code r \<and> status_code r < 600)"
    and "body r = Some prices"
  shows "fst (coingecko_get_prices E coin_ids vs tr) = Inr prices
         \<and> (prices = JObj ps
              \<and> (cg_id \<notin> fst ` set ps
                  \<or> (\<exists>qs. map_of ps cg_id = Some (JObj qs) \<and> VS_CURRENCY \<notin> fst ` set qs)) \<longrightarrow>
            sync_crypto_items E G db_props prices ((notion_name, cg_id) # rest) tr'
              = (Inl (RuntimeError (missing_price_msg E cg_id prices)), tr')
            \<and> sublist cg_id (missing_price_msg E cg_id prices)
            \<and> sublist VS_CURRENCY (missing_price_msg E cg_id prices))"
proof (intro conjI impI)
  show "fst (coingecko_get_prices E coin_ids vs tr) = Inr prices"
    using attempts_then_ok [OF assms(2-6)] by (simp add: coingecko_get_prices_def assms(1))
next
  assume "prices = JObj ps
          \<and> (cg_id \<notin> fst ` set ps
              \<or> (\<exists>qs. map_of ps cg_id = Some (JObj qs) \<and> VS_CURRENCY \<notin> fst ` set qs))"
  then have "price_missing prices cg_id = Inr True"
    using price_missing_absent [of cg_id ps] by blast
  then show "sync_crypto_items E G db_props prices ((notion_name, cg_id) # rest) tr'
              = (Inl (RuntimeError (missing_price_msg E cg_id prices)), tr')"
    by simp
qed (rule names_cg_id names_vs)+

text \<open>An instance: the answer quotes Bitcoin only, and the loop reaches WLFI.\<close>

theorem batch_quote_returned_unvalidated_witness:
  "fst (coingecko_get_prices only_bitcoin [''bitcoin'', ''world-liberty-financial''] ''aud'' [])
     = Inr bitcoin_quote
   \<and> fst (sync_crypto_items only_bitcoin example_config (JObj []) bitcoin_quote
            [(''WLFI'', ''world-liberty-financial'')] [])
     = Inl (RuntimeError (missing_price_msg only_bitcoin ''world-liberty-financial'' bitcoin_quote))
   \<and> sublist ''world-liberty-financial''
        (missing_price_msg only_bitcoin ''world-liberty-financial'' bitcoin_quote)
   \<and> sublist ''aud'' (missing_price_msg only_bitcoin ''world-liberty-financial'' bitcoin_quote)"
proof -
  let ?ids = "[''bitcoin'', ''world-liberty-financial'']"
  let ?rq = "coingecko_request ''notion-sync/1.0'' ?ids ''aud'' :: real request"
  let ?r = "\<lparr>status_code = 200, response_text = [], body = Some bitcoin_quote\<rparr>"
  let ?ps = "[(''bitcoin'', JObj [(''aud'', JFloat (97250.5 :: real))])]"
  have none: "\<forall>i<0. \<exists>r. http only_bitcoin (nreq [] + i) ?rq = Response r \<and> status_code r = 429"
    by simp
  have answer: "http only_bitcoin (nreq [] + 0) ?rq = Response ?r"
    by (simp add: only_bitcoin_def example_env_def reply_def)
  have absent: "bitcoin_quote = JObj ?ps
      \<and> (''world-liberty-financial'' \<notin> fst ` set ?ps
          \<or> (\<exists>qs. map_of ?ps ''world-liberty-financial'' = Some (JObj qs) \<and> VS_CURRENCY \<notin> fst ` set qs))"
    by (simp add: bitcoin_quote_def)
  from batch_quote_returned_unvalidated [of ?rq ?ids "''aud''" 0 only_bitcoin "[]" ?r bitcoin_quote
      ?ps "''world-liberty-financial''" example_config "JObj []" "''WLFI''" "[]" "[]",
      OF refl _ none answer] absent
  show ?thesis
    by (simp add: VS_CURRENCY_def)
qed

section \<open>The listed-security quote operation\<close>

lemma yahoo_answered:
  assumes "http E (nreq tr) (yahoo_request ticker) = Response r"
    and "\<not> (400 \<le> status_code r \<and> status_code r < 600)"
    and "body r = Some data"
  shows "yahoo_last_price E ticker tr = (yahoo_extract E data, tr @ [Request (yahoo_request ticker)])"
  using assms
  by (auto simp: yahoo_last_price_def requests_call_def raise_for_status_def response_json_def)

lemma yahoo_http_error:
  assumes "http E (nreq tr) (yahoo_request ticker) = Response r"
    and "400 \<le> status_code r \<and> status_code r < 600"
  shows "yahoo_last_price E ticker tr
         = (Inl (HTTPError (status_code r)), tr @ [Request (yahoo_request ticker)])"
  using assms
  by (auto simp: yahoo_last_price_def requests_call_def raise_for_status_def response_json_def)

lemma yahoo_extract_no_price:
  assumes "py_get data ''chart'' (JObj []) = Inr chart"
    and "py_get chart ''result'' JNull = Inr result"
    and "py_get chart ''error'' JNull = Inr err"
    and "truthy E err \<or> \<not> truthy E result"
  shows "yahoo_extract E data = Inr None"
  using assms by (auto simp: yahoo_extract_def and_then_def)

text \<open>
  C4, as the claim states it, fails in two ways. \<^verbatim>\<open>yahoo_last_price\<close> calls
  \<^verbatim>\<open>raise_for_status\<close> before it reads the document, so an error reported under a 404
  status raises \<^verbatim>\<open>HTTPError\<close>. And the error member is tested for its truth value, so
  an error member that is present and not null but empty does not stop the extraction.
\<close>

theorem yahoo_error_field_counterexample:
  "py_get (JObj [(''result'', JNull), (''error'', not_found_error)]) ''error'' JNull \<noteq> Inr JNull
   \<and> fst (yahoo_last_price unknown_symbol ''NOPE.AX'' []) = Inl (HTTPError 404)
   \<and> py_get (JObj [(''result'', live_quote), (''error'', JObj [])]) ''error'' JNull \<noteq> Inr JNull
   \<and> fst (yahoo_last_price empty_error ''IVV.AX'' []) = Inr (Some 42.17)"
  by (simp add: yahoo_last_price_def requests_call_def raise_for_status_def response_json_def
      unknown_symbol_def empty_error_def example_env_def yahoo_reply_def reply_def nreq_def
      yahoo_extract_def and_then_def live_quote_def not_found_error_def)

text \<open>
  C4, amended. When the answer has a status outside the 4xx and 5xx classes and its body
  is an object whose \<^verbatim>\<open>chart\<close> member is an object (or is missing), and the \<^verbatim>\<open>error\<close> member
  of the chart is true as a Python value or its \<^verbatim>\<open>result\<close> member is missing, null or
  empty, then \<^verbatim>\<open>yahoo_last_price\<close> returns \<^verbatim>\<open>None\<close> after its single call and raises
  nothing. The caller, the loop of \<^verbatim>\<open>sync_etfs\<close>, makes it fatal: it raises the
  \<^verbatim>\<open>RuntimeError\<close> about the ticker without any further call.
\<close>

theorem yahoo_no_price_without_raising:
  assumes "http E (nreq tr) (yahoo_request ticker) = Response r"
    and "\<not> (400 \<le> status_code r \<and> status_code r < 600)"
    and "body r = Some data"
    and "py_get data ''chart'' (JObj []) = Inr chart"
    and "py_get chart ''result'' JNull = Inr result"
    and "py_get chart ''error'' JNull = Inr err"
    and "truthy E err \<or> \<not> truthy E result"
  shows "yahoo_last_price E ticker tr = (Inr None, tr @ [Request (yahoo_request ticker)])
         \<and> sync_etfs_items E G db_props ((notion_name, ticker) # rest) tr
           = (Inl (RuntimeError (no_quote_msg ticker)), tr @ [Request (yahoo_request ticker)])"
proof -
  have "yahoo_last_price E ticker tr = (Inr None, tr @ [Request (yahoo_request ticker)])"
    using yahoo_answered [OF assms(1-3)] yahoo_extract_no_price [OF assms(4-7)] by simp
  then show ?thesis by simp
qed

text \<open>An instance: status 200, no result and an error object.\<close>

theorem yahoo_no_price_without_raising_witness:
  "yahoo_last_price reported_error ''NOPE.AX'' [] = (Inr None, [Request (yahoo_request ''NOPE.AX'')])
   \<and> sync_etfs_items reported_error example_config (JObj []) [(''IVV'', ''NOPE.AX'')] []
     = (Inl (RuntimeError (no_quote_msg ''NOPE.AX'')), [Request (yahoo_request ''NOPE.AX'')])"
proof -
  let ?chart = "JObj [(''result'', JNull), (''error'', not_found_error)]"
  let ?data = "JObj [(''chart'', ?chart)]"
  let ?r = "\<lparr>status_code = 200, response_text = [], body = Some ?data\<rparr>"
  have answer: "http reported_error (nreq []) (yahoo_request ''NOPE.AX'') = Response ?r"
    by (simp add: reported_error_def example_env_def yahoo_reply_def reply_def)
  have err: "truthy reported_error not_found_error \<or> \<not> truthy reported_error JNull"
    by (simp add: not_found_error_def)
  from yahoo_no_price_without_raising [of reported_error "[]" "''NOPE.AX''" ?r ?data ?chart JNull
      not_found_error example_config "JObj []" "''IVV''" "[]", OF answer _ _ _ _ _ err]
  show ?thesis
    by simp
qed

text \<open>
  C5. The live price is chosen with \<^verbatim>\<open>or\<close>, which also passes over a live price that is
  present and zero. Here the metadata holds the live price \<open>0.0\<close> and the previous close
  \<open>41.9\<close>, and the operation returns the previous close.
\<close>

theorem yahoo_zero_live_price_falls_back:
  "yahoo_last_price zero_live ''IVV.AX'' [] = (Inr (Some 41.9), [Request (yahoo_request ''IVV.AX'')])"
  by (simp add: yahoo_last_price_def requests_call_def raise_for_status_def response_json_def
      zero_live_def example_env_def yahoo_reply_def reply_def nreq_def
      yahoo_extract_def and_then_def zero_live_quote_def)

section \<open>The record locator\<close>

lemma find_answered:
  assumes "http E (nreq tr) (find_request G database_id title_value) = Response r"
    and "\<not> (400 \<le> status_code r \<and> status_code r < 600)"
    and "body r = Some j"
  shows "notion_find_page_id_by_title E G database_id title_value tr
         = (and_then (py_get j ''results'' (JArr [])) (\<lambda>results.
              if \<not> truthy E results
              then Inl (RuntimeError (not_found_msg database_id title_value))
              else and_then (py_getitem0 results) (\<lambda>first. py_getitem first ''id'')),
            tr @ [Request (find_request G database_id title_value)])"
  using assms
  by (auto simp: notion_find_page_id_by_title_def requests_call_def raise_for_status_def
      response_json_def and_then_def)

lemma names_store: "sublist database_id (not_found_msg database_id title_value)"
proof -
  have "not_found_msg database_id title_value
        = ''Notion DB('' @ database_id
          @ ('') '' @ [CHR 0xE6, CHR 0x89, CHR 0xBE, CHR 0xE4, CHR 0xB8, CHR 0x8D, CHR 0xE5, CHR 0x88, CHR 0xB0]
             @ '' '' @ TITLE_PROP @ '' == '' @ [CHR 0x22] @ title_value @ [CHR 0x22] @ '' ''
             @ [CHR 0xE7, CHR 0x9A, CHR 0x84, CHR 0xE8, CHR 0xA1, CHR 0x8C])"
    by (simp add: not_found_msg_def)
  then show ?thesis
    by (simp only: sublist_appendI)
qed

lemma names_title: "sublist title_value (not_found_msg database_id title_value)"
proof -
  have "not_found_msg database_id title_value
        = (''Notion DB('' @ database_id
          @ '') '' @ [CHR 0xE6, CHR 0x89, CHR 0xBE, CHR 0xE4, CHR 0xB8, CHR 0x8D, CHR 0xE5, CHR 0x88, CHR 0xB0]
             @ '' '' @ TITLE_PROP @ '' == '' @ [CHR 0x22]) @ title_value @ ([CHR 0x22] @ '' ''
             @ [CHR 0xE7, CHR 0x9A, CHR 0x84, CHR 0xE8, CHR 0xA1, CHR 0x8C])"
    by (simp add: not_found_msg_def)
  then show ?thesis
    by (simp only: sublist_appendI)
qed

text \<open>
  The locator of \<^verbatim>\<open>crypto_etf_sync.py\<close>. When the query of \<^verbatim>\<open>notion_find_page_id_by_title\<close>
  is answered with a status outside the 4xx and 5xx classes and a JSON object: if its
  \<^verbatim>\<open>results\<close> member is the empty list (or is missing), the locator raises a
  \<^verbatim>\<open>RuntimeError\<close> whose message contains the store identifier and the title; if
  \<^verbatim>\<open>results\<close> is a list whose first element is an object with an \<^verbatim>\<open>id\<close>, the locator
  returns that \<^verbatim>\<open>id\<close>, whatever follows in the list.
\<close>

theorem locator_not_found_or_first:
  assumes "http E (nreq tr) (find_request G database_id title_value) = Response r"
    and "\<not> (400 \<le> status_code r \<and> status_code r < 600)"
    and "body r = Some (JObj doc)"
  shows "(map_of doc ''results'' = None \<or> map_of doc ''results'' = Some (JArr []) \<longrightarrow>
            notion_find_page_id_by_title E G database_id title_value tr
              = (Inl (RuntimeError (not_found_msg database_id title_value)),
                 tr @ [Request (find_request G database_id title_value)])
            \<and> sublist database_id (not_found_msg database_id title_value)
            \<and> sublist title_value (not_found_msg database_id title_value))
         \<and> (map_of doc ''results'' = Some (JArr (JObj row # rows)) \<and> map_of row ''id'' = Some page_id \<longrightarrow>
            notion_find_page_id_by_title E G database_id title_value tr
              = (Inr page_id, tr @ [Request (find_request G database_id title_value)]))"
  using find_answered [OF assms] names_store [of database_id title_value]
    names_title [of title_value database_id]
  by (auto simp: and_then_def)

text \<open>Instances: no row, and two rows of which the first is taken.\<close>

theorem locator_not_found_or_first_witness:
  "notion_find_page_id_by_title no_row example_config ''crypto-db'' ''Bitcoin'' []
     = (Inl (RuntimeError (not_found_msg ''crypto-db'' ''Bitcoin'')),
        [Request (find_request example_config ''crypto-db'' ''Bitcoin'')])
   \<and> sublist ''crypto-db'' (not_found_msg ''crypto-db'' ''Bitcoin'')
   \<and> sublist ''Bitcoin'' (not_found_msg ''crypto-db'' ''Bitcoin'')
   \<and> notion_find_page_id_by_title one_row example_config ''crypto-db'' ''Bitcoin'' []
     = (Inr (JStr ''page-1''), [Request (find_request example_config ''crypto-db'' ''Bitcoin'')])"
proof -
  let ?rq = "find_request example_config ''crypto-db'' ''Bitcoin'' :: real request"
  let ?none = "[(''results'', JArr [])] :: (string \<times> real json) list"
  let ?row = "[(''id'', JStr ''page-1'')] :: (string \<times> real json) list"
  let ?rows = "[JObj [(''id'', JStr ''page-2'')]] :: real json list"
  let ?some = "[(''results'', JArr (JObj ?row # ?rows))]"
  let ?r0 = "\<lparr>status_code = 200, response_text = [], body = Some (JObj ?none)\<rparr>"
  let ?r1 = "\<lparr>status_code = 200, response_text = [], body = Some (JObj ?some)\<rparr>"
  have a0: "http no_row (nreq []) ?rq = Response ?r0"
    by (simp add: no_row_def example_env_def reply_def)
  have a1: "http one_row (nreq []) ?rq = Response ?r1"
    by (simp add: one_row_def example_env_def reply_def)
  have zero: "map_of ?none ''results'' = None \<or> map_of ?none ''results'' = Some (JArr [])"
    by simp
  have first: "map_of ?some ''results'' = Some (JArr (JObj ?row # ?rows))
               \<and> map_of ?row ''id'' = Some (JStr ''page-1'')"
    by simp
  from locator_not_found_or_first [of no_row "[]" example_config "''crypto-db''" "''Bitcoin''" ?r0 ?none,
      OF a0] zero
    locator_not_found_or_first [of one_row "[]" example_config "''crypto-db''" "''Bitcoin''" ?r1 ?some
      ?row ?rows "JStr ''page-1''", OF a1] first
  show ?thesis
    by simp
qed

text \<open>
  C6. The locator of \<^verbatim>\<open>crypto_sync.py\<close>, \<^verbatim>\<open>notion_query_page_id_by_name\<close>, does not do
  this. It reads the unbound name \<^verbatim>\<open>NOTION_DATABASE_ID\<close> to build its URL, so it raises
  \<^verbatim>\<open>NameError\<close> before any query: with no matching row there is no record-not-found
  error, and with two matching rows no identifier is returned.
\<close>

theorem crypto_sync_locator_name_error:
  "cs_notion_query_page_id_by_name no_row example_config ''Bitcoin'' []
     = (Inl (NameError ''NOTION_DATABASE_ID''), [])
   \<and> cs_notion_query_page_id_by_name one_row example_config ''Bitcoin'' []
     = (Inl (NameError ''NOTION_DATABASE_ID''), [])"
  by (simp add: cs_notion_query_page_id_by_name_def unbound_name)

section \<open>The record updater\<close>

lemma requests_of_call:
  "requests_of (snd (requests_call E rq tr)) = requests_of tr @ [rq]"
  by (simp add: requests_call_def requests_of_append split: outcome.splits)

lemma requests_of_print: "requests_of (print s tr) = requests_of tr"
  by (simp add: print_def requests_of_append)

lemma digits:
  "char_of (48::nat) = CHR ''0''" "char_of (49::nat) = CHR ''1''" "char_of (50::nat) = CHR ''2''"
  "char_of (51::nat) = CHR ''3''" "char_of (52::nat) = CHR ''4''" "char_of (53::nat) = CHR ''5''"
  "char_of (54::nat) = CHR ''6''" "char_of (55::nat) = CHR ''7''" "char_of (56::nat) = CHR ''8''"
  "char_of (57::nat) = CHR ''9''"
  by (simp_all add: char_of_eq_iff)

lemma example_stamp: "isoformat_utc example_clock = ''2024-05-17T08:30:00.123456+00:00''"
  by (simp add: isoformat_utc_def example_clock_def zpad_def str_nat.simps digits)

lemma stamp_is_utc: "suffix ''+00:00'' (isoformat_utc d)"
proof -
  have "isoformat_utc d
        = (zpad 4 (year d) @ ''-'' @ zpad 2 (month d) @ ''-'' @ zpad 2 (day d) @ ''T''
           @ zpad 2 (hour d) @ '':'' @ zpad 2 (minute d) @ '':'' @ zpad 2 (second d)
           @ (if microsecond d = 0 then [] else ''.'' @ zpad 6 (microsecond d)))
          @ ''+00:00''"
    by (simp add: isoformat_utc_def)
  then show ?thesis
    by (simp only: suffix_appendI suffix_order.refl)
qed

lemma length_str_nat: "0 < w \<Longrightarrow> n < 10 ^ w \<Longrightarrow> length (str_nat n) \<le> w"
proof (induction n arbitrary: w rule: str_nat.induct)
  case (1 n)
  show ?case
  proof (cases "n < 10")
    case True
    with "1.prems" show ?thesis
      by (simp add: str_nat.simps [of n])
  next
    case False
    with "1.prems" have "1 < w"
      by (cases "w = 1") auto
    then obtain v where v: "w = Suc v" "0 < v"
      by (cases w) auto
    with "1.prems" have "n div 10 < 10 ^ v"
      by (simp add: less_mult_imp_div_less mult.commute)
    with "1.IH" [OF False v(2)] have "length (str_nat (n div 10)) \<le> v"
      by simp
    with False v show ?thesis
      by (simp add: str_nat.simps [of n])
  qed
qed

lemma length_zpad: "0 < w \<Longrightarrow> n < 10 ^ w \<Longrightarrow> length (zpad w n) = w"
  using length_str_nat [of w n] by (simp add: zpad_def)

lemma isoformat_utc_shape:
  assumes "valid_datetime d"
  shows "\<exists>Y M D h m s f.
           isoformat_utc d = Y @ ''-'' @ M @ ''-'' @ D @ ''T'' @ h @ '':'' @ m @ '':'' @ s @ f @ ''+00:00''
           \<and> length Y = 4 \<and> length M = 2 \<and> length D = 2
           \<and> length h = 2 \<and> length m = 2 \<and> length s = 2
           \<and> (f = [] \<or> (\<exists>u. f = ''.'' @ u \<and> length u = 6))"
proof -
  let ?f = "if microsecond d = 0 then [] else ''.'' @ zpad 6 (microsecond d)"
  have p4: "(10::nat) ^ 4 = 10000" and p2: "(10::nat) ^ 2 = 100" and p6: "(10::nat) ^ 6 = 1000000"
    by simp_all
  from assms have b: "year d < 10 ^ 4" "month d < 10 ^ 2" "day d < 10 ^ 2" "hour d < 10 ^ 2"
    "minute d < 10 ^ 2" "second d < 10 ^ 2" "microsecond d < 10 ^ 6"
    unfolding valid_datetime_def p4 p2 p6 by linarith+
  have l: "length (zpad 4 (year d)) = 4" "length (zpad 2 (month d)) = 2"
    "length (zpad 2 (day d)) = 2" "length (zpad 2 (hour d)) = 2" "length (zpad 2 (minute d)) = 2"
    "length (zpad 2 (second d)) = 2" "length (zpad 6 (microsecond d)) = 6"
    by (rule length_zpad, simp, rule b)+
  have f: "?f = [] \<or> (\<exists>u. ?f = ''.'' @ u \<and> length u = 6)"
    using l(7) by (cases "microsecond d = 0") simp_all
  have "isoformat_utc d
        = zpad 4 (year d) @ ''-'' @ zpad 2 (month d) @ ''-'' @ zpad 2 (day d) @ ''T''
          @ zpad 2 (hour d) @ '':'' @ zpad 2 (minute d) @ '':'' @ zpad 2 (second d) @ ?f @ ''+00:00''"
    by (simp only: isoformat_utc_def)
  with l(1-6) f show ?thesis
    by blast
qed

lemma update_without_price_field:
  assumes "PRICE_PROP \<notin> fst ` set schema"
  shows "notion_update_price E G (JObj schema) page_id price tr
         = (Inl (RuntimeError missing_column_msg), tr)"
  using assms by (simp add: notion_update_price_def)

lemma update_requests:
  assumes "PRICE_PROP \<in> fst ` set schema"
  shows "requests_of (snd (notion_update_price E G (JObj schema) page_id price tr))
         = requests_of tr
           @ [patch_request (NOTION_HEADERS G) (py_format E page_id)
                (price_payload price
                 @ (if LAST_UPDATED_PROP \<in> fst ` set schema
                    then stamp_payload (isoformat_utc (utcnow E (length tr))) else []))]"
proof -
  have distinct: "LAST_UPDATED_PROP \<noteq> PRICE_PROP"
    by (simp add: LAST_UPDATED_PROP_def PRICE_PROP_def)
  have upd: "AList.update LAST_UPDATED_PROP v (price_payload price)
             = price_payload price @ [(LAST_UPDATED_PROP, v)]" for v :: "'a json"
    using distinct by (simp add: price_payload_def)
  show ?thesis
    using assms distinct distinct [symmetric]
    by (simp add: notion_update_price_def Let_def requests_call_def print_def requests_of_append
        price_payload_def stamp_payload_def now_stamp_def split: outcome.splits)
qed

lemma cs_update_requests:
  "requests_of (snd (cs_notion_update_price E G page_id price has_last_updated tr))
   = requests_of tr
     @ [patch_request (NOTION_HEADERS G) (py_format E page_id)
          (price_payload price
           @ (if has_last_updated
              then stamp_payload (isoformat_utc (utcnow E (length tr))) else []))]"
  by (simp add: cs_notion_update_price_def Let_def requests_call_def requests_of_append
      price_payload_def stamp_payload_def now_stamp_def PRICE_PROP_def LAST_UPDATED_PROP_def
      split: outcome.splits)

lemma update_issues:
  assumes "py_in PRICE_PROP database_props = Inr True"
    and "py_in LAST_UPDATED_PROP database_props = Inr b"
  shows "requests_of (snd (notion_update_price E G database_props page_id price tr))
         = requests_of tr
           @ [patch_request (NOTION_HEADERS G) (py_format E page_id)
                (price_payload price
                 @ (if b then stamp_payload (isoformat_utc (utcnow E (length tr))) else []))]"
proof -
  have distinct: "LAST_UPDATED_PROP \<noteq> PRICE_PROP" "PRICE_PROP \<noteq> LAST_UPDATED_PROP"
    by (simp_all add: LAST_UPDATED_PROP_def PRICE_PROP_def)
  show ?thesis
    using assms distinct
    by (simp add: notion_update_price_def Let_def requests_call_def print_def requests_of_append
        price_payload_def stamp_payload_def now_stamp_def split: outcome.splits)
qed

lemma update_issues_nothing:
  assumes "py_in PRICE_PROP database_props \<noteq> Inr True
           \<or> (\<exists>e. py_in LAST_UPDATED_PROP database_props = Inl e)"
  shows "snd (notion_update_price E G database_props page_id price tr) = tr"
proof (cases "py_in PRICE_PROP database_props")
  case (Inl e)
  then show ?thesis
    by (simp add: notion_update_price_def)
next
  case (Inr has_price)
  show ?thesis
  proof (cases has_price)
    case False
    with Inr show ?thesis
      by (simp add: notion_update_price_def)
  next
    case True
    with Inr assms obtain e where "py_in LAST_UPDATED_PROP database_props = Inl e"
      by auto
    with Inr True show ?thesis
      by (simp add: notion_update_price_def)
  qed
qed

lemma update_requests_any:
  "requests_of (snd (notion_update_price E G database_props page_id price tr)) = requests_of tr
   \<or> (\<exists>P. requests_of (snd (notion_update_price E G database_props page_id price tr))
             = requests_of tr @ [patch_request (NOTION_HEADERS G) (py_format E page_id) P]
           \<and> (map fst P = [PRICE_PROP] \<or> map fst P = [PRICE_PROP, LAST_UPDATED_PROP]))"
proof (cases "py_in PRICE_PROP database_props = Inr True
              \<and> (\<exists>b. py_in LAST_UPDATED_PROP database_props = Inr b)")
  case True
  then obtain b where "py_in PRICE_PROP database_props = Inr True"
    "py_in LAST_UPDATED_PROP database_props = Inr b"
    by blast
  from update_issues [OF this, of E G page_id price tr] show ?thesis
    by (intro disjI2 exI [of _ "price_payload price
          @ (if b then stamp_payload (isoformat_utc (utcnow E (length tr))) else [])"])
      (simp add: price_payload_def stamp_payload_def)
next
  case False
  then have "py_in PRICE_PROP database_props \<noteq> Inr True
             \<or> (\<exists>e. py_in LAST_UPDATED_PROP database_props = Inl e)"
    by (cases "py_in LAST_UPDATED_PROP database_props") auto
  from update_issues_nothing [OF this] show ?thesis
    by simp
qed

text \<open>
  C7, as the claim states it, fails for the updater of \<^verbatim>\<open>crypto_sync.py\<close>. That
  \<^verbatim>\<open>notion_update_price\<close> is given a page, a price and the flag for the timestamp, never
  the schema, and it tests nothing before the call. Here the store's schema has no
  \<^verbatim>\<open>Current Price\<close> entry, the flag is what the script computes from that schema, and the
  updater issues the \<^verbatim>\<open>PATCH\<close> all the same.
\<close>

theorem crypto_sync_updater_writes_counterexample:
  "py_in ''Current Price'' (JObj [(''Name'', JObj []), (''Last Updated'', JObj [] :: real json)])
     = Inr False
   \<and> py_in ''Last Updated'' (JObj [(''Name'', JObj []), (''Last Updated'', JObj [] :: real json)])
     = Inr True
   \<and> requests_of (snd (cs_notion_update_price accepts_all example_config
        (JStr ''page-1'') 97250.5 True []))
     = [patch_request (NOTION_HEADERS example_config) ''page-1''
          [(''Current Price'', JObj [(''number'', JFloat 97250.5)]),
           (''Last Updated'',
            JObj [(''date'', JObj [(''start'', JStr ''2024-05-17T08:30:00.123456+00:00'')])])]]"
proof -
  have stamp: "isoformat_utc (utcnow accepts_all n) = ''2024-05-17T08:30:00.123456+00:00''" for n
    by (simp add: accepts_all_def example_env_def example_stamp)
  show ?thesis
    by (simp add: cs_update_requests stamp price_payload_def stamp_payload_def PRICE_PROP_def
        LAST_UPDATED_PROP_def)
qed

text \<open>
  C7, amended. In \<^verbatim>\<open>crypto_etf_sync.py\<close>, when the schema handed to \<^verbatim>\<open>notion_update_price\<close>
  has no \<^verbatim>\<open>Current Price\<close> entry, the updater raises its \<^verbatim>\<open>RuntimeError\<close> about the missing
  column and leaves the trace as it found it: no call of \<^verbatim>\<open>requests\<close> is made, hence no
  write.
\<close>

theorem updater_fails_before_write:
  assumes "PRICE_PROP \<notin> fst ` set schema"
  shows "notion_update_price E G (JObj schema) page_id price tr
           = (Inl (RuntimeError missing_column_msg), tr)
         \<and> requests_of (snd (notion_update_price E G (JObj schema) page_id price tr))
           = requests_of tr"
  using update_without_price_field [OF assms] by simp

text \<open>An instance: a schema with a title and a date column only.\<close>

theorem updater_fails_before_write_witness:
  "notion_update_price accepts_all example_config
     (JObj [(''Name'', JObj []), (''Last Updated'', JObj [])]) (JStr ''page-1'') 97250.5 []
   = (Inl (RuntimeError missing_column_msg), [])"
proof -
  have "PRICE_PROP \<notin> fst ` set [(''Name'', JObj []), (''Last Updated'', JObj [] :: real json)]"
    by (simp add: PRICE_PROP_def)
  from updater_fails_before_write [OF this] show ?thesis
    by simp
qed

text \<open>
  C8. When the schema has the price field, \<^verbatim>\<open>notion_update_price\<close> makes exactly one call,
  a \<^verbatim>\<open>PATCH\<close> whose \<^verbatim>\<open>properties\<close> hold the number under the price field, followed by the
  date under \<^verbatim>\<open>Last Updated\<close> if the schema has that field and by nothing otherwise. The
  date is the reading of the UTC clock in \<^verbatim>\<open>isoformat\<close>, of the form
  \<^verbatim>\<open>YYYY-MM-DDTHH:MM:SS[.ffffff]+00:00\<close>: it ends with the offset of UTC. The updater of \<^verbatim>\<open>crypto_sync.py\<close> does the same, deciding on the flag that
  its caller computes from the schema.
\<close>

theorem update_payload_timestamp_iff_schema:
  assumes "PRICE_PROP \<in> fst ` set schema"
  shows "requests_of (snd (notion_update_price E G (JObj schema) page_id price tr))
           = requests_of tr
             @ [patch_request (NOTION_HEADERS G) (py_format E page_id)
                  (price_payload price
                   @ (if LAST_UPDATED_PROP \<in> fst ` set schema
                      then stamp_payload (isoformat_utc (utcnow E (length tr))) else []))]
         \<and> requests_of (snd (cs_notion_update_price E G page_id price has_last_updated tr))
           = requests_of tr
             @ [patch_request (NOTION_HEADERS G) (py_format E page_id)
                  (price_payload price
                   @ (if has_last_updated
                      then stamp_payload (isoformat_utc (utcnow E (length tr))) else []))]
         \<and> suffix ''+00:00'' (isoformat_utc (utcnow E (length tr)))
         \<and> (valid_datetime (utcnow E (length tr)) \<longrightarrow>
              (\<exists>Y M D h m s f.
                 isoformat_utc (utcnow E (length tr))
                   = Y @ ''-'' @ M @ ''-'' @ D @ ''T'' @ h @ '':'' @ m @ '':'' @ s @ f @ ''+00:00''
                 \<and> length Y = 4 \<and> length M = 2 \<and> length D = 2
                 \<and> length h = 2 \<and> length m = 2 \<and> length s = 2
                 \<and> (f = [] \<or> (\<exists>u. f = ''.'' @ u \<and> length u = 6))))"
  by (intro conjI impI update_requests [OF assms] cs_update_requests stamp_is_utc
      isoformat_utc_shape)

text \<open>Instances: a schema with both fields, and one with the price field only.\<close>

theorem update_payload_timestamp_iff_schema_witness:
  "requests_of (snd (notion_update_price accepts_all example_config
      (JObj [(''Name'', JObj []), (''Current Price'', JObj []), (''Last Updated'', JObj [])])
      (JStr ''page-1'') 97250.5 []))
   = [patch_request (NOTION_HEADERS example_config) ''page-1''
        [(''Current Price'', JObj [(''number'', JFloat 97250.5)]),
         (''Last Updated'', JObj [(''date'', JObj [(''start'', JStr ''2024-05-17T08:30:00.123456+00:00'')])])]]
   \<and> requests_of (snd (notion_update_price accepts_all example_config
      (JObj [(''Name'', JObj []), (''Current Price'', JObj [])]) (JStr ''page-1'') 97250.5 []))
   = [patch_request (NOTION_HEADERS example_config) ''page-1''
        [(''Current Price'', JObj [(''number'', JFloat 97250.5)])]]"
proof -
  let ?both = "[(''Name'', JObj []), (''Current Price'', JObj []), (''Last Updated'', JObj [] :: real json)]"
  let ?one = "[(''Name'', JObj []), (''Current Price'', JObj [] :: real json)]"
  have both: "PRICE_PROP \<in> fst ` set ?both" and one: "PRICE_PROP \<in> fst ` set ?one"
    by (simp_all add: PRICE_PROP_def)
  have stamp: "isoformat_utc (utcnow accepts_all n) = ''2024-05-17T08:30:00.123456+00:00''" for n
    by (simp add: accepts_all_def example_env_def example_stamp)
  from update_payload_timestamp_iff_schema [OF both, of accepts_all example_config "JStr ''page-1''"
      "97250.5" "[]" True]
    update_payload_timestamp_iff_schema [OF one, of accepts_all example_config "JStr ''page-1''"
      "97250.5" "[]" True]
  show ?thesis
    by (simp add: stamp price_payload_def stamp_payload_def PRICE_PROP_def LAST_UPDATED_PROP_def)
qed

text \<open>
  C10. Every call that either updater makes is one \<^verbatim>\<open>PATCH\<close> of the page, and the keys of
  its \<^verbatim>\<open>properties\<close> are the price field alone or the price field and the
  update-timestamp field, for any schema, page and price. No other field of the row is
  named in the patch.
\<close>

theorem update_patch_touches_only_price_and_timestamp:
  "(requests_of (snd (notion_update_price E G database_props page_id price tr)) = requests_of tr
    \<or> (\<exists>P. requests_of (snd (notion_update_price E G database_props page_id price tr))
              = requests_of tr @ [patch_request (NOTION_HEADERS G) (py_format E page_id) P]
            \<and> (map fst P = [PRICE_PROP] \<or> map fst P = [PRICE_PROP, LAST_UPDATED_PROP])))
   \<and> (\<exists>P. requests_of (snd (cs_notion_update_price E G page_id price has_last_updated tr))
              = requests_of tr @ [patch_request (NOTION_HEADERS G) (py_format E page_id) P]
            \<and> (map fst P = [''Current Price''] \<or> map fst P = [''Current Price'', ''Last Updated'']))"
proof
  show "requests_of (snd (notion_update_price E G database_props page_id price tr)) = requests_of tr
    \<or> (\<exists>P. requests_of (snd (notion_update_price E G database_props page_id price tr))
              = requests_of tr @ [patch_request (NOTION_HEADERS G) (py_format E page_id) P]
            \<and> (map fst P = [PRICE_PROP] \<or> map fst P = [PRICE_PROP, LAST_UPDATED_PROP]))"
    by (rule update_requests_any)
  show "\<exists>P. requests_of (snd (cs_notion_update_price E G page_id price has_last_updated tr))
              = requests_of tr @ [patch_request (NOTION_HEADERS G) (py_format E page_id) P]
            \<and> (map fst P = [''Current Price''] \<or> map fst P = [''Current Price'', ''Last Updated''])"
    by (intro exI [of _ "price_payload price
          @ (if has_last_updated then stamp_payload (isoformat_utc (utcnow E (length tr))) else [])"])
      (simp add: cs_update_requests price_payload_def stamp_payload_def PRICE_PROP_def
        LAST_UPDATED_PROP_def)
qed

section \<open>The crypto-only script\<close>

text \<open>
  C9. No statement of \<^verbatim>\<open>crypto_sync.py\<close> binds \<^verbatim>\<open>NOTION_DATABASE_ID\<close>. Its schema read and
  its locator raise \<^verbatim>\<open>NameError\<close> for that name before they call anything, and so does
  \<^verbatim>\<open>main\<close>, whose first statement is the schema read: the trace of every run is empty,
  there is no price fetch, no row lookup and no row update.
\<close>

theorem crypto_sync_main_name_error:
  "cs_main E G tr = (Inl (NameError ''NOTION_DATABASE_ID''), tr)
   \<and> cs_notion_get_database_properties E G tr = (Inl (NameError ''NOTION_DATABASE_ID''), tr)
   \<and> cs_notion_query_page_id_by_name E G name tr = (Inl (NameError ''NOTION_DATABASE_ID''), tr)
   \<and> snd (cs_run E) = []"
proof -
  have "cs_notion_query_page_id_by_name E G name tr = (Inl (NameError ''NOTION_DATABASE_ID''), tr)"
    by (simp add: cs_notion_query_page_id_by_name_def unbound_name)
  moreover have "snd (cs_run E) = []"
    by (simp add: cs_run_def cs_main_unbound split: sum.splits)
  ultimately show ?thesis
    by (simp add: cs_main_unbound cs_schema_read_unbound)
qed

end
